theory Spec2Isabelle
  imports Complex_Main
begin

section \<open>Values shared by the retrieval engine and the services\<close>

text \<open>
  Scores and feature components are 32-bit floats in the source; they are modelled as
  exact rationals.  A Python \<open>str\<close> is modelled as a \<open>string\<close> in which every
  character stands for one code point, so \<open>length\<close> is Python's \<open>len\<close>.
\<close>

type_synonym vec = "rat list"

datatype error =
    NotImplementedError
  | ValueError string
  | RuntimeError string
  | AttributeError
  | AssertionError
  | KeyError string
  | ExternalError string

section \<open>Python's string and path functions\<close>

text \<open>\<open>str.isspace\<close> on the code points below 256.\<close>

definition is_space :: "char \<Rightarrow> bool" where
  "is_space c =
     (let n = (of_char c :: nat)
      in (9 \<le> n \<and> n \<le> 13) \<or> (28 \<le> n \<and> n \<le> 32) \<or> n = 133 \<or> n = 160)"

definition strip :: "string \<Rightarrow> string" where
  "strip s = rev (dropWhile is_space (rev (dropWhile is_space s)))"

text \<open>\<open>s.split(sep)\<close> for a separator of one character.\<close>

fun split_on :: "char \<Rightarrow> string \<Rightarrow> string list" where
  "split_on sep [] = [[]]"
| "split_on sep (c # cs) =
     (if c = sep then [] # split_on sep cs
      else (case split_on sep cs of
              w # ws \<Rightarrow> (c # w) # ws
            | [] \<Rightarrow> [[c]]))"

text \<open>\<open>posixpath.basename\<close>, \<open>posixpath.dirname\<close> and \<open>posixpath.splitext(p)[0]\<close>.\<close>

definition basename :: "string \<Rightarrow> string" where
  "basename p = rev (takeWhile (\<lambda>c. c \<noteq> CHR ''/'') (rev p))"

definition dirname :: "string \<Rightarrow> string" where
  "dirname p =
     (let head = rev (dropWhile (\<lambda>c. c \<noteq> CHR ''/'') (rev p))
      in if head \<noteq> [] \<and> (\<exists>c \<in> set head. c \<noteq> CHR ''/'')
         then rev (dropWhile (\<lambda>c. c = CHR ''/'') (rev head))
         else head)"

definition splitext_root :: "string \<Rightarrow> string" where
  "splitext_root p =
     (let b = basename p;
          stem = rev (drop 1 (dropWhile (\<lambda>c. c \<noteq> CHR ''.'') (rev b)))
      in if CHR ''.'' \<in> set b \<and> (\<exists>c \<in> set stem. c \<noteq> CHR ''.'')
         then take (length p - length b) p @ stem
         else p)"

text \<open>\<open>posixpath.join\<close> of a first component and the following ones.\<close>

fun path_join :: "string \<Rightarrow> string list \<Rightarrow> string" where
  "path_join a [] = a"
| "path_join a (b # bs) =
     (if b \<noteq> [] \<and> hd b = CHR ''/'' then path_join b bs
      else if a = [] \<or> last a = CHR ''/'' then path_join (a @ b) bs
      else path_join (a @ ''/'' @ b) bs)"

text \<open>
  \<open>int(s)\<close> on a string: surrounding white space, an optional sign, then decimal
  digits with single underscores between them; \<open>None\<close> is \<open>ValueError\<close>.
\<close>

definition is_digit :: "char \<Rightarrow> bool" where
  "is_digit c = (48 \<le> (of_char c :: nat) \<and> (of_char c :: nat) \<le> 57)"

fun py_digits :: "nat \<Rightarrow> bool \<Rightarrow> string \<Rightarrow> nat option" where
  "py_digits acc after_digit [] = (if after_digit then Some acc else None)"
| "py_digits acc after_digit (c # cs) =
     (if is_digit c then py_digits (10 * acc + (of_char c - 48)) True cs
      else if c = CHR ''_'' \<and> after_digit then py_digits acc False cs
      else None)"

definition py_int :: "string \<Rightarrow> int option" where
  "py_int s =
     (case strip s of
        [] \<Rightarrow> None
      | c # cs \<Rightarrow>
          if c = CHR ''-'' then map_option (\<lambda>n. - int n) (py_digits 0 False cs)
          else if c = CHR ''+'' then map_option int (py_digits 0 False cs)
          else map_option int (py_digits 0 False (c # cs)))"

text \<open>\<open>str(n)\<close> for an integer, and the format \<open>{n:03d}\<close>.\<close>

fun str_nat :: "nat \<Rightarrow> string" where
  "str_nat n =
     (if n < 10 then [char_of (48 + n)]
      else str_nat (n div 10) @ [char_of (48 + n mod 10)])"

definition str_int :: "int \<Rightarrow> string" where
  "str_int i = (if i < 0 then CHR ''-'' # str_nat (nat (- i)) else str_nat (nat i))"

definition pad3 :: "nat \<Rightarrow> string" where
  "pad3 n = replicate (3 - length (str_nat n)) CHR ''0'' @ str_nat n"

section \<open>The retrieval engine\<close>

text \<open>What a FAISS search returns: \<open>k\<close> pairs of score and id, flattened.\<close>

type_synonym search_hits = "(rat \<times> int) list"

text \<open>
  A numpy array of features with its shape: one dimension \<open>(D,)\<close>, or two
  dimensions \<open>(n, D)\<close>.  \<open>flat\<close> is its data; for an array of one row it is what
  \<open>squeeze(0)\<close> leaves.  \<open>with_data\<close> keeps the shape and replaces the data of an
  array of one row.
\<close>

datatype ndarray = Vec1 vec | Mat "vec list"

fun flat :: "ndarray \<Rightarrow> vec" where
  "flat (Vec1 v) = v"
| "flat (Mat rows) = concat rows"

fun with_data :: "ndarray \<Rightarrow> vec \<Rightarrow> ndarray" where
  "with_data (Vec1 _) v = Vec1 v"
| "with_data (Mat _) v = Mat [v]"

text \<open>
  The source of \<open>image_search\<close>: a string (path, URL or data URL), raw bytes, a
  file-like object or a decoded image.
\<close>

datatype image_source =
    SourceStr string
  | SourceBytes string
  | SourceFile string
  | SourceImage string

text \<open>
  \<open>MyFaiss\<close> of \<open>backend/utils/faiss_processing_beit3.py\<close>.  The models, the
  FAISS indexes, the translator, the feature files and the random generator are
  outside the repository; they are the fields of the record.  A field that can raise
  returns a sum.  \<open>clip_encode_text\<close> is \<open>clip.tokenize\<close> followed by
  \<open>clip_model.encode_text\<close>, and gives the one row of its \<open>(1, D)\<close> result, as
  \<open>longclip_model\<close> and \<open>beit3_model\<close> do; \<open>clip_requires_grad\<close> says whether that
  result is a tensor that requires grad, on which \<open>numpy()\<close> raises.
  \<open>l2_normalize\<close> is the division of a vector by its Euclidean norm; \<open>randn n\<close> is
  the \<open>n\<close>-th draw of \<open>np.random.randn\<close> within a call, already divided by its norm
  where the source does so; \<open>cuda\<close> says whether \<open>self.device\<close> is \<open>cuda\<close>.  An
  index field is the search of the index for one query row and a positive \<open>k\<close>.
  \<open>set_order\<close> is the order in which \<open>list\<close> lists a set of strings, given here in
  the order of insertion; it varies with the hash seed.  The attributes
  \<open>clip2video_model\<close>, \<open>index_clip2video\<close>, \<open>features_store\<close> and
  \<open>clip_preprocess\<close> are never assigned by \<open>__init__\<close>, so they are no fields.
\<close>

record engine =
  translator :: "string \<Rightarrow> string"
  clip_encode_text :: "string \<Rightarrow> error + vec"
  clip_requires_grad :: bool
  longclip_model :: "(string \<Rightarrow> error + vec) option"
  longclip_encode_image :: "image_source \<Rightarrow> vec"
  beit3_model :: "(string \<Rightarrow> error + vec) option"
  l2_normalize :: "vec \<Rightarrow> vec"
  randn :: "nat \<Rightarrow> vec"
  index_clip :: "vec \<Rightarrow> int \<Rightarrow> error + search_hits"
  index_longclip :: "vec \<Rightarrow> int \<Rightarrow> error + search_hits"
  index_beit3 :: "vec \<Rightarrow> int \<Rightarrow> error + search_hits"
  reconstruct_clip :: "int \<Rightarrow> error + vec"
  reconstruct_longclip :: "int \<Rightarrow> error + vec"
  load_image_source :: "image_source \<Rightarrow> error + string"
  id2img :: "int \<rightharpoonup> string"
  load_video_features :: "string \<Rightarrow> string \<Rightarrow> error + vec list"
  cuda :: bool
  set_order :: "string list \<Rightarrow> string list"

text \<open>\<open>[self.id2img.get(int(i)) for i in idxs if int(i) in self.id2img]\<close>\<close>

definition image_paths_of :: "engine \<Rightarrow> int list \<Rightarrow> string list" where
  "image_paths_of e idxs = List.map_filter (id2img e) idxs"

text \<open>
  \<open>index.search(x, k)\<close> as the Python wrapper of FAISS runs it: it unpacks
  \<open>n, d = x.shape\<close>, which raises \<open>ValueError\<close> on an array of one dimension, it
  asserts \<open>k > 0\<close>, and it returns the hits of the rows one after the other.
\<close>

fun search_rows ::
  "(vec \<Rightarrow> int \<Rightarrow> error + search_hits) \<Rightarrow> vec list \<Rightarrow> int \<Rightarrow> error + search_hits" where
  "search_rows index [] k = Inr []"
| "search_rows index (q # qs) k =
     (case index q k of
        Inl err \<Rightarrow> Inl err
      | Inr hits \<Rightarrow>
          (case search_rows index qs k of
             Inl err \<Rightarrow> Inl err
           | Inr rest \<Rightarrow> Inr (hits @ rest)))"

definition shape_error :: error where
  "shape_error = ValueError ''not enough values to unpack (expected 2, got 1)''"

definition faiss_search ::
  "(vec \<Rightarrow> int \<Rightarrow> error + search_hits) \<Rightarrow> ndarray \<Rightarrow> int \<Rightarrow> error + search_hits" where
  "faiss_search index x k =
     (case x of
        Vec1 _ \<Rightarrow> Inl shape_error
      | Mat rows \<Rightarrow> if k > 0 then search_rows index rows k else Inl AssertionError)"

section \<open>\<open>MyFaiss.image_search\<close>\<close>

text \<open>
  The calls \<open>image_search\<close> makes on the index, the loader and the encoders, in the
  order it makes them.
\<close>

datatype event =
    Reconstruct string int
  | LoadImage image_source
  | EncodeImage string
  | IndexSearch string int

type_synonym search_result = "rat list \<times> int list \<times> string list"

text \<open>
  Step 2 of \<open>image_search\<close> for a chosen index, after the check of the input: the one
  row of the query.  The CLIP branch reads \<open>self.clip_preprocess\<close>, which does not
  exist; the LongCLIP branch makes its features an array of one row.
\<close>

definition image_query ::
  "engine \<Rightarrow> string \<Rightarrow> int option \<Rightarrow> image_source option \<Rightarrow> event list \<times> (error + vec)" where
  "image_query e model_type image_id image_source =
     (case image_id of
        Some i \<Rightarrow>
          (case (if model_type = ''clip'' then reconstruct_clip e else reconstruct_longclip e) i of
             Inr q \<Rightarrow> ([Reconstruct model_type i], Inr q)
           | Inl _ \<Rightarrow> ([Reconstruct model_type i],
                       Inl (RuntimeError ''Index does not support reconstruct().'')))
      | None \<Rightarrow>
          (case image_source of
             None \<Rightarrow> ([], Inl (ValueError ''Provide either image_id or image_source.''))
           | Some src \<Rightarrow>
               (case load_image_source e src of
                  Inl err \<Rightarrow> ([LoadImage src], Inl err)
                | Inr pil_img \<Rightarrow>
                    if model_type = ''clip'' then ([LoadImage src], Inl AttributeError)
                    else ([LoadImage src, EncodeImage model_type],
                          Inr (longclip_encode_image e src)))))"

definition image_search ::
  "engine \<Rightarrow> int \<Rightarrow> string \<Rightarrow> int option \<Rightarrow> image_source option
     \<Rightarrow> event list \<times> (error + search_result)" where
  "image_search e k model_type image_id image_source =
     (if model_type \<noteq> ''clip'' \<and> model_type \<noteq> ''longclip'' then ([], Inl NotImplementedError)
      else if image_id = None \<and> image_source = None then
        ([], Inl (ValueError ''Provide either image_id or image_source.''))
      else if image_id \<noteq> None \<and> image_source \<noteq> None then
        ([], Inl (ValueError ''Provide only one of image_id or image_source, not both.''))
      else
        (case image_query e model_type image_id image_source of
           (evs, Inl err) \<Rightarrow> (evs, Inl err)
         | (evs, Inr q) \<Rightarrow>
             (case faiss_search (if model_type = ''clip'' then index_clip e else index_longclip e)
                     (Mat [l2_normalize e q]) k of
                Inl err \<Rightarrow> (evs @ [IndexSearch model_type k], Inl err)
              | Inr hits \<Rightarrow>
                  (evs @ [IndexSearch model_type k],
                   Inr (map fst hits, map snd hits, image_paths_of e (map snd hits))))))"

section \<open>\<open>MyFaiss.text_search\<close>\<close>

text \<open>
  \<open>LongCLIPModel.encode_text\<close> of \<open>longclip_wrapper.py\<close>: the features as an
  array of one row, and mock features, \<open>np.random.randn(512)\<close> of one dimension, when
  no model is loaded and when the encoding raises.
\<close>

definition longclip_encode_text :: "engine \<Rightarrow> nat \<Rightarrow> string \<Rightarrow> ndarray" where
  "longclip_encode_text e n text =
     (case longclip_model e of
        None \<Rightarrow> Vec1 (randn e n)
      | Some encode \<Rightarrow>
          (case encode text of
             Inl _ \<Rightarrow> Vec1 (randn e n)
           | Inr features \<Rightarrow> Mat [features]))"

text \<open>
  The BEiT-3 features of a text in \<open>text_search\<close> and \<open>temporal_search\<close>: those of
  the model, or the dummy features \<open>np.random.randn(1, 1024)\<close> when there is none.
\<close>

definition beit3_features :: "engine \<Rightarrow> nat \<Rightarrow> string \<Rightarrow> error + ndarray" where
  "beit3_features e n text =
     (case beit3_model e of
        Some encode \<Rightarrow>
          (case encode text of
             Inl err \<Rightarrow> Inl err
           | Inr features \<Rightarrow> Inr (Mat [features]))
      | None \<Rightarrow> Inr (Mat [randn e n]))"

definition text_features :: "engine \<Rightarrow> string \<Rightarrow> string \<Rightarrow> error + ndarray" where
  "text_features e model_type text =
     (if model_type = ''clip'' then
        (case clip_encode_text e text of
           Inl err \<Rightarrow> Inl err
         | Inr features \<Rightarrow> Inr (Mat [l2_normalize e features]))
      else if model_type = ''longclip'' then Inr (longclip_encode_text e 0 text)
      else if model_type = ''beit3'' then beit3_features e 0 text
      else if model_type = ''clip2video'' then Inl AttributeError
      else Inl NotImplementedError)"

definition index_chosen :: "engine \<Rightarrow> string \<Rightarrow> vec \<Rightarrow> int \<Rightarrow> error + search_hits" where
  "index_chosen e model_type =
     (if model_type = ''clip'' then index_clip e
      else if model_type = ''longclip'' then index_longclip e
      else index_beit3 e)"

definition text_search :: "engine \<Rightarrow> string \<Rightarrow> int \<Rightarrow> string \<Rightarrow> error + search_result" where
  "text_search e text k model_type =
     (case text_features e model_type (translator e text) of
        Inl err \<Rightarrow> Inl err
      | Inr features \<Rightarrow>
          (case faiss_search (index_chosen e model_type) features k of
             Inl err \<Rightarrow> Inl err
           | Inr hits \<Rightarrow> Inr (map fst hits, map snd hits, image_paths_of e (map snd hits))))"

section \<open>\<open>MyFaiss.temporal_search\<close>\<close>

text \<open>The values of the dictionaries that \<open>temporal_search\<close> returns.\<close>

datatype pyval =
    PNone
  | PInt int
  | PNum rat
  | PStr string
  | PList "pyval list"
  | PDict "(string \<times> pyval) list"

record ranked_unit =
  ru_video_id :: "string option"
  ru_image_path :: "string option"
  ru_faiss_id :: int
  ru_score :: rat

record temporal_hit =
  video_id :: string
  frames :: "nat list"
  images :: "string list"
  paths :: "string list"
  score :: rat

definition split_sentences :: "string \<Rightarrow> string list" where
  "split_sentences text = filter (\<lambda>s. s \<noteq> []) (map strip (split_on CHR ''.'' text))"

subsection \<open>One sentence: the text search, one hit per unit\<close>

fun single_sentence_loop ::
  "int \<Rightarrow> (rat \<times> string) list \<Rightarrow> (string \<times> rat) list \<Rightarrow> string list
     \<Rightarrow> (string \<times> rat) list \<times> string list" where
  "single_sentence_loop k [] out seen = (out, seen)"
| "single_sentence_loop k ((s, path) # rest) out seen =
     (let unit_id = basename (dirname path)
      in if unit_id \<notin> set seen then
           (if int (length (out @ [(unit_id, s)])) \<ge> k
            then (out @ [(unit_id, s)], seen @ [unit_id])
            else single_sentence_loop k rest (out @ [(unit_id, s)]) (seen @ [unit_id]))
         else single_sentence_loop k rest out seen)"

definition unit_dict :: "string \<times> rat \<Rightarrow> pyval" where
  "unit_dict u =
     PDict [(''unit_id'', PStr (fst u)), (''frames'', PList [PNone]), (''score'', PNum (snd u))]"

subsection \<open>Phase 1: encoding and search per sentence\<close>

text \<open>
  The torch feature and the numpy feature of sentence number \<open>i\<close>.  The CLIP
  branch squeezes the feature to one dimension and calls \<open>numpy()\<close> on it without
  \<open>detach()\<close>.  In the other branches \<open>torch.from_numpy\<close> shares the array on the
  CPU, so the division in place normalises both.
\<close>

definition encode_sentence ::
  "engine \<Rightarrow> string \<Rightarrow> nat \<Rightarrow> string \<Rightarrow> error + (vec \<times> ndarray) option" where
  "encode_sentence e model_type i s =
     (if model_type = ''clip'' then
        (case clip_encode_text e s of
           Inl err \<Rightarrow> Inl err
         | Inr feat \<Rightarrow>
             if clip_requires_grad e
             then Inl (RuntimeError ''numpy() on a tensor that requires grad'')
             else Inr (Some (l2_normalize e feat, Vec1 (l2_normalize e feat))))
      else if model_type = ''longclip'' then
        (let feat_np = longclip_encode_text e i s
         in Inr (Some (l2_normalize e (flat feat_np),
                       if cuda e then feat_np
                       else with_data feat_np (l2_normalize e (flat feat_np)))))
      else if model_type = ''beit3'' then
        (case beit3_features e i s of
           Inl err \<Rightarrow> Inl err
         | Inr feat_np \<Rightarrow>
             Inr (Some (l2_normalize e (flat feat_np),
                        if cuda e then feat_np
                        else with_data feat_np (l2_normalize e (flat feat_np)))))
      else if model_type = ''clip2video'' then Inr None
      else Inl NotImplementedError)"

fun encode_sentences ::
  "engine \<Rightarrow> string \<Rightarrow> nat \<Rightarrow> string list \<Rightarrow> error + (vec \<times> ndarray) list" where
  "encode_sentences e model_type i [] = Inr []"
| "encode_sentences e model_type i (s # ss) =
     (case encode_sentence e model_type i s of
        Inl err \<Rightarrow> Inl err
      | Inr None \<Rightarrow> encode_sentences e model_type (Suc i) ss
      | Inr (Some feats) \<Rightarrow>
          (case encode_sentences e model_type (Suc i) ss of
             Inl err \<Rightarrow> Inl err
           | Inr rest \<Rightarrow> Inr (feats # rest)))"

definition video_of_path :: "string option \<Rightarrow> string option" where
  "video_of_path img_path =
     (case img_path of
        None \<Rightarrow> None
      | Some p \<Rightarrow> if p \<noteq> [] then Some (basename (dirname p)) else None)"

text \<open>
  The loop over the hits of one sentence.  The set \<open>seen\<close> of the source always holds
  the elements of \<open>candidate_videos\<close>, so the list stands for both.
\<close>

fun rank_units ::
  "engine \<Rightarrow> int \<Rightarrow> search_hits \<Rightarrow> ranked_unit list \<Rightarrow> string list
     \<Rightarrow> ranked_unit list \<times> string list" where
  "rank_units e max_candidate_videos [] ranked_units candidate_videos =
     (ranked_units, candidate_videos)"
| "rank_units e max_candidate_videos ((s, idx) # rest) ranked_units candidate_videos =
     (let img_path = id2img e idx;
          vid = video_of_path img_path;
          unit = \<lparr>ru_video_id = vid, ru_image_path = img_path, ru_faiss_id = idx, ru_score = s\<rparr>
      in rank_units e max_candidate_videos rest (ranked_units @ [unit])
           (case vid of
              None \<Rightarrow> candidate_videos
            | Some v \<Rightarrow>
                if v \<noteq> [] \<and> v \<notin> set candidate_videos
                   \<and> int (length candidate_videos) < max_candidate_videos
                then candidate_videos @ [v]
                else candidate_videos))"

text \<open>\<open>temp = 20\<close>: the number of units kept per sentence.\<close>

definition temp :: nat where
  "temp = 20"

fun search_sentences ::
  "engine \<Rightarrow> string \<Rightarrow> int \<Rightarrow> int \<Rightarrow> (string \<times> ndarray) list
     \<Rightarrow> (string \<times> ranked_unit list) list \<Rightarrow> string list
     \<Rightarrow> error + (string \<times> ranked_unit list) list \<times> string list" where
  "search_sentences e model_type topk max_candidate_videos [] per_sentence candidate_videos =
     Inr (per_sentence, candidate_videos)"
| "search_sentences e model_type topk max_candidate_videos ((sentence, feat) # rest)
       per_sentence candidate_videos =
     (case faiss_search (index_chosen e model_type) feat topk of
        Inl err \<Rightarrow> Inl err
      | Inr hits \<Rightarrow>
          (case rank_units e max_candidate_videos hits [] candidate_videos of
             (ranked_units, candidate_videos') \<Rightarrow>
               search_sentences e model_type topk max_candidate_videos rest
                 (per_sentence @ [(sentence, take temp ranked_units)]) candidate_videos'))"

subsection \<open>Per-video scoring\<close>

definition dot :: "vec \<Rightarrow> vec \<Rightarrow> rat" where
  "dot a b = sum_list (map2 (*) a b)"

text \<open>\<open>(text_feat_torch @ video_features.T) * 0.5 + 0.5\<close>; torch raises on a size mismatch.\<close>

definition similarity :: "vec \<Rightarrow> vec list \<Rightarrow> error + rat list" where
  "similarity text_feat video_features =
     (if \<forall>row \<in> set video_features. length row = length text_feat
      then Inr (map (\<lambda>row. dot text_feat row * (1 / 2) + 1 / 2) video_features)
      else Inl (RuntimeError ''size mismatch''))"

fun similarities :: "vec list \<Rightarrow> vec list \<Rightarrow> error + rat list list" where
  "similarities [] video_features = Inr []"
| "similarities (text_feat # rest) video_features =
     (case similarity text_feat video_features of
        Inl err \<Rightarrow> Inl err
      | Inr sims \<Rightarrow>
          (case similarities rest video_features of
             Inl err \<Rightarrow> Inl err
           | Inr sim_list \<Rightarrow> Inr (sims # sim_list)))"

definition normalize_sims :: "rat list \<Rightarrow> rat list" where
  "normalize_sims sims =
     (let smin = Min (set sims); smax = Max (set sims)
      in if smax - smin < 1 / 1000000 then replicate (length sims) 0
         else map (\<lambda>s. (s - smin) / (smax - smin)) sims)"

definition anchor_top :: nat where
  "anchor_top = 5"

definition anchor_boost :: rat where
  "anchor_boost = 1 / 10"

definition anchor_window :: int where
  "anchor_window = 2"

text \<open>\<open>int(os.path.splitext(os.path.basename(img_path))[0]) - 1\<close>, if it parses.\<close>

definition anchor_row :: "ranked_unit \<Rightarrow> int option" where
  "anchor_row h =
     (case ru_image_path h of
        None \<Rightarrow> None
      | Some img_path \<Rightarrow>
          if img_path = [] then None
          else map_option (\<lambda>n. n - 1) (py_int (splitext_root (basename img_path))))"

definition decay :: "int \<Rightarrow> int \<Rightarrow> rat" where
  "decay t j = 1 - of_int \<bar>t - j\<bar> / (of_int anchor_window + 1)"

definition apply_anchor :: "nat \<Rightarrow> rat list \<Rightarrow> ranked_unit \<Rightarrow> rat list" where
  "apply_anchor N bonus h =
     (case anchor_row h of
        None \<Rightarrow> bonus
      | Some j \<Rightarrow>
          if 0 \<le> j \<and> j < int N then
            fold (\<lambda>t b. b[t := max (b ! t) (anchor_boost * decay (int t) j)])
              [nat (max 0 (j - anchor_window)) ..< nat (min (int N) (j + anchor_window + 1))]
              bonus
          else bonus)"

definition anchor_bonus :: "nat \<Rightarrow> string \<Rightarrow> ranked_unit list \<Rightarrow> rat list" where
  "anchor_bonus N vid ranked_units =
     fold (\<lambda>h bonus. apply_anchor N bonus h)
       (take anchor_top (filter (\<lambda>u. ru_video_id u = Some vid) ranked_units))
       (replicate N 0)"

subsection \<open>The dynamic programme over the gaps\<close>

definition neg_inf :: rat where
  "neg_inf = - 1000000000"

definition valid_gap :: "int \<Rightarrow> int option \<Rightarrow> nat \<Rightarrow> nat \<Rightarrow> bool" where
  "valid_gap w_min w_max prev_idx next_idx =
     (let gap = int next_idx - int prev_idx
      in gap \<ge> w_min \<and> (case w_max of None \<Rightarrow> True | Some w \<Rightarrow> gap \<le> w))"

text \<open>\<open>torch.argmax\<close>: the index of the first maximal value.\<close>

fun argmax_from :: "nat \<Rightarrow> rat \<Rightarrow> nat \<Rightarrow> rat list \<Rightarrow> nat" where
  "argmax_from best best_val i [] = best"
| "argmax_from best best_val i (x # xs) =
     (if x > best_val then argmax_from i x (Suc i) xs
      else argmax_from best best_val (Suc i) xs)"

definition argmax :: "rat list \<Rightarrow> nat" where
  "argmax xs = (case xs of [] \<Rightarrow> 0 | x # rest \<Rightarrow> argmax_from 0 x 1 rest)"

definition masked_row :: "int \<Rightarrow> int option \<Rightarrow> nat \<Rightarrow> rat list \<Rightarrow> nat \<Rightarrow> rat list" where
  "masked_row w_min w_max N score_next p =
     map (\<lambda>c. if valid_gap w_min w_max p c then score_next ! c else neg_inf) [0..<N]"

text \<open>One pass of the backward loop: the scores of the previous sentence and its pointers.\<close>

definition dp_layer ::
  "int \<Rightarrow> int option \<Rightarrow> nat \<Rightarrow> rat list \<Rightarrow> rat list \<Rightarrow> rat list \<times> int list" where
  "dp_layer w_min w_max N score_next work_prev =
     (let best_cols = map (\<lambda>p. argmax (masked_row w_min w_max N score_next p)) [0..<N];
          best_vals = map (\<lambda>p. masked_row w_min w_max N score_next p ! (best_cols ! p)) [0..<N];
          score_prev = map2 (+) best_vals work_prev;
          pointer = map (\<lambda>p. if best_vals ! p > - 100000000 then int (best_cols ! p) else - 1)
                      [0..<N]
      in (score_prev, pointer))"

fun dp_loop ::
  "int \<Rightarrow> int option \<Rightarrow> nat \<Rightarrow> rat list list \<Rightarrow> rat list \<Rightarrow> int list list
     \<Rightarrow> rat list \<times> int list list" where
  "dp_loop w_min w_max N [] score_next backptr_tables = (score_next, backptr_tables)"
| "dp_loop w_min w_max N (work_prev # rest) score_next backptr_tables =
     (case dp_layer w_min w_max N score_next work_prev of
        (score_prev, pointer) \<Rightarrow>
          dp_loop w_min w_max N rest score_prev (backptr_tables @ [pointer]))"

fun backtrack :: "int list list \<Rightarrow> nat \<Rightarrow> nat list option" where
  "backtrack [] cur = Some []"
| "backtrack (ptr # ptrs) cur =
     (let nxt = ptr ! cur
      in if nxt < 0 then None
         else map_option (\<lambda>rest. nat nxt # rest) (backtrack ptrs (nat nxt)))"

definition temporal_dp ::
  "int \<Rightarrow> int option \<Rightarrow> nat \<Rightarrow> nat \<Rightarrow> rat list list \<Rightarrow> (nat list \<times> rat) option" where
  "temporal_dp w_min w_max N M work_sim_list =
     (case dp_loop w_min w_max N (rev (butlast work_sim_list)) (last work_sim_list) [] of
        (score_next, backptr_tables) \<Rightarrow>
          (let f0 = argmax score_next;
               total_score = score_next ! f0
           in case backtrack (rev backptr_tables) f0 of
                None \<Rightarrow> None
              | Some rest \<Rightarrow>
                  if length (f0 # rest) = M then Some (f0 # rest, total_score) else None))"

definition make_hit :: "string \<Rightarrow> nat \<Rightarrow> nat list \<Rightarrow> rat \<Rightarrow> temporal_hit" where
  "make_hit vid M frame_indices total_score =
     (let frame_files = map (\<lambda>idx. pad3 (idx + 1) @ ''.jpg'') frame_indices
      in \<lparr>video_id = vid,
          frames = frame_indices,
          images = frame_files,
          paths = map (\<lambda>fname. path_join ''keyframe_btc''
                     [''Keyframes_'' @ takeWhile (\<lambda>c. c \<noteq> CHR ''_'') vid, ''keyframes'', vid, fname])
                    frame_files,
          score = total_score * (100 / of_nat M)\<rparr>)"

text \<open>The body of the loop over the candidate videos; \<open>None\<close> is a video left out.\<close>

definition process_video ::
  "engine \<Rightarrow> string \<Rightarrow> int \<Rightarrow> int option \<Rightarrow> nat \<Rightarrow> vec list
     \<Rightarrow> (string \<times> ranked_unit list) list \<Rightarrow> string \<Rightarrow> error + temporal_hit option" where
  "process_video e model_type w_min w_max M text_feats_torch per_sentence vid =
     (case load_video_features e model_type vid of
        Inl _ \<Rightarrow> Inr None
      | Inr video_features \<Rightarrow>
          if video_features = [] \<or> hd video_features = [] then Inr None
          else if length video_features < M then Inr None
          else
            (case similarities text_feats_torch video_features of
               Inl err \<Rightarrow> Inl err
             | Inr sim_list \<Rightarrow>
                 (let N = length video_features;
                      norm_sim_list = map normalize_sims sim_list;
                      bonus_list = map (\<lambda>entry. anchor_bonus N vid (snd entry)) per_sentence;
                      work_sim_list = map2 (map2 (+)) norm_sim_list bonus_list
                  in case temporal_dp w_min w_max N M work_sim_list of
                       None \<Rightarrow> Inr None
                     | Some (frame_indices, total_score) \<Rightarrow>
                         Inr (Some (make_hit vid M frame_indices total_score)))))"

fun process_videos ::
  "(string \<Rightarrow> error + temporal_hit option) \<Rightarrow> string list \<Rightarrow> temporal_hit list
     \<Rightarrow> error + temporal_hit list" where
  "process_videos body [] results = Inr results"
| "process_videos body (vid # rest) results =
     (case body vid of
        Inl err \<Rightarrow> Inl err
      | Inr None \<Rightarrow> process_videos body rest results
      | Inr (Some hit) \<Rightarrow> process_videos body rest (results @ [hit]))"

subsection \<open>The whole search\<close>

text \<open>
  The branch for two or more sentences: the shortlists, the candidate videos and the
  results.  \<open>results.sort(key=..., reverse=True)\<close> is stable, as \<open>sort_key\<close> is.
\<close>

definition temporal_multi ::
  "engine \<Rightarrow> string list \<Rightarrow> int \<Rightarrow> string \<Rightarrow> int \<Rightarrow> int \<Rightarrow> int \<Rightarrow> int option
     \<Rightarrow> error + (string \<times> ranked_unit list) list \<times> string list \<times> temporal_hit list" where
  "temporal_multi e sentences k model_type topk_per_sentence max_candidate_videos w_min w_max =
     (case encode_sentences e model_type 0 sentences of
        Inl err \<Rightarrow> Inl err
      | Inr feats \<Rightarrow>
          if model_type = ''clip2video'' then Inl NotImplementedError
          else
            (case search_sentences e model_type topk_per_sentence max_candidate_videos
                    (zip sentences (map snd feats)) [] [] of
               Inl err \<Rightarrow> Inl err
             | Inr (per_sentence, candidate_videos) \<Rightarrow>
                 if candidate_videos = [] then Inr (per_sentence, [], [])
                 else
                   (case process_videos
                           (process_video e model_type w_min w_max (length sentences)
                              (map fst feats) per_sentence)
                           candidate_videos [] of
                      Inl err \<Rightarrow> Inl err
                    | Inr results \<Rightarrow>
                        (let sorted_results = sort_key (\<lambda>r. - score r) results
                         in Inr (per_sentence, candidate_videos,
                                 if k > 0 then take (nat k) sorted_results
                                 else sorted_results)))))"

definition opt_str :: "string option \<Rightarrow> pyval" where
  "opt_str s = (case s of None \<Rightarrow> PNone | Some t \<Rightarrow> PStr t)"

definition ranked_unit_dict :: "ranked_unit \<Rightarrow> pyval" where
  "ranked_unit_dict u =
     PDict [(''video_id'', opt_str (ru_video_id u)), (''image_path'', opt_str (ru_image_path u)),
            (''faiss_id'', PInt (ru_faiss_id u)), (''score'', PNum (ru_score u))]"

definition sentence_dict :: "string \<times> ranked_unit list \<Rightarrow> pyval" where
  "sentence_dict entry =
     PDict [(''sentence'', PStr (fst entry)),
            (''ranked_units'', PList (map ranked_unit_dict (snd entry)))]"

definition hit_dict :: "temporal_hit \<Rightarrow> pyval" where
  "hit_dict r =
     PDict [(''video_id'', PStr (video_id r)),
            (''frames'', PList (map (\<lambda>i. PInt (int i)) (frames r))),
            (''images'', PList (map PStr (images r))),
            (''paths'', PList (map PStr (paths r))),
            (''score'', PNum (score r))]"

definition temporal_search ::
  "engine \<Rightarrow> string \<Rightarrow> int \<Rightarrow> string \<Rightarrow> int \<Rightarrow> int \<Rightarrow> int \<Rightarrow> int option
     \<Rightarrow> error + (string \<times> pyval) list" where
  "temporal_search e text k model_type topk_per_sentence max_candidate_videos w_min w_max =
     (let sentences = split_sentences (translator e text)
      in if sentences = [] then Inl AssertionError
         else if length sentences = 1 then
           (case text_search e (hd sentences) k model_type of
              Inl err \<Rightarrow> Inl err
            | Inr (scores, idxs, image_paths) \<Rightarrow>
                (case single_sentence_loop k (zip scores image_paths) [] [] of
                   (out, seen) \<Rightarrow>
                     Inr [(''sentences'', PList (map PStr sentences)),
                          (''candidates'', PList (map PStr (set_order e seen))),
                          (''results'', PList (map unit_dict out))]))
         else
           (case temporal_multi e sentences k model_type topk_per_sentence
                   max_candidate_videos w_min w_max of
              Inl err \<Rightarrow> Inl err
            | Inr (per_sentence, candidate_videos, results) \<Rightarrow>
                Inr [(''sentences'', PList (map PStr sentences)),
                     (''per_sentence'', PList (map sentence_dict per_sentence)),
                     (''candidate_videos'', PList (map PStr candidate_videos)),
                     (''results'', PList (map hit_dict results))]))"

section \<open>\<open>SearchService\<close> of \<open>backend/services/search_service.py\<close>\<close>

datatype model_type = CLIP | LONGCLIP | CLIP2VIDEO | BEIT3 | ALL_MODELS

fun model_value :: "model_type \<Rightarrow> string" where
  "model_value CLIP = ''clip''"
| "model_value LONGCLIP = ''longclip''"
| "model_value CLIP2VIDEO = ''clip2video''"
| "model_value BEIT3 = ''beit3''"
| "model_value ALL_MODELS = ''all''"

text \<open>
  The fields of \<open>SearchResult\<close> that the service sets; \<open>watch_url\<close>, \<open>ocr_text\<close>
  and \<open>bbox\<close> stay \<open>None\<close> throughout.
\<close>

record search_hit =
  sr_image_id :: string
  sr_score :: rat
  sr_link :: string
  sr_image_url :: string
  sr_file_path :: "string option"
  sr_video_id :: "string option"
  sr_shot_index :: "int option"
  sr_frame_stamp :: "rat option"

record frame_metadata =
  md_filename :: string
  md_shot_index :: "int option"
  md_timestamp :: "rat option"

text \<open>
  The service: the engine (\<open>None\<close> in mock mode) and the metadata service
  (\<open>None\<close> when it is not initialised).
\<close>

record search_service =
  faiss_engine :: "engine option"
  metadata_service :: "(string \<Rightarrow> error + frame_metadata option) option"

text \<open>Python's \<open>xs[:n]\<close> and \<open>range(n)\<close> for an integer \<open>n\<close>.\<close>

definition py_take :: "int \<Rightarrow> 'a list \<Rightarrow> 'a list" where
  "py_take n xs = (if n \<ge> 0 then take (nat n) xs else take (length xs - nat (- n)) xs)"

definition mock_search_results :: "int \<Rightarrow> string \<Rightarrow> string \<Rightarrow> search_hit list" where
  "mock_search_results limit search_type query =
     map (\<lambda>i. \<lparr>sr_image_id = ''mock_'' @ search_type @ ''_'' @ str_nat i,
               sr_score = 9 / 10 - of_nat i * (1 / 10),
               sr_link = ''/mock/image_'' @ str_nat i @ ''.jpg'',
               sr_image_url = ''/mock/image_'' @ str_nat i @ ''.jpg'',
               sr_file_path = Some (''mock_folder_'' @ str_nat i @ ''/image_'' @ str_nat i @ ''.jpg''),
               sr_video_id = None, sr_shot_index = None, sr_frame_stamp = None\<rparr>)
       [0 ..< nat (min limit 10)]"

text \<open>The \<open>SearchResult\<close> built for one hit of the engine.\<close>

definition make_result :: "string \<Rightarrow> rat \<Rightarrow> int \<Rightarrow> string \<Rightarrow> search_hit" where
  "make_result model s idx path =
     (let path_parts = split_on CHR ''/'' path
      in \<lparr>sr_image_id = model @ ''_'' @ str_int idx,
          sr_score = s,
          sr_link = path,
          sr_image_url = ''/data/'' @ path,
          sr_file_path =
            (if length path_parts \<ge> 3
             then Some (path_parts ! (length path_parts - 2) @ ''/'' @ last path_parts)
             else None),
          sr_video_id = None, sr_shot_index = None, sr_frame_stamp = None\<rparr>)"

definition similarity_threshold :: "model_type \<Rightarrow> rat" where
  "similarity_threshold model_type =
     (if model_type = LONGCLIP \<or> model_type = CLIP2VIDEO then 1
      else if model_type = BEIT3 then 4 / 10
      else 2 / 10)"

fun remove_duplicates_loop ::
  "int \<Rightarrow> search_hit list \<Rightarrow> search_hit list \<Rightarrow> string list \<Rightarrow> search_hit list" where
  "remove_duplicates_loop limit [] unique_results seen_ids = unique_results"
| "remove_duplicates_loop limit (result # rest) unique_results seen_ids =
     (if sr_image_id result \<notin> set seen_ids then
        (if int (length (unique_results @ [result])) \<ge> limit then unique_results @ [result]
         else remove_duplicates_loop limit rest (unique_results @ [result])
                (seen_ids @ [sr_image_id result]))
      else remove_duplicates_loop limit rest unique_results seen_ids)"

definition remove_duplicates :: "search_hit list \<Rightarrow> int \<Rightarrow> search_hit list" where
  "remove_duplicates results limit = remove_duplicates_loop limit results [] []"

definition enhance_result ::
  "(string \<Rightarrow> error + frame_metadata option) \<Rightarrow> search_hit \<Rightarrow> search_hit" where
  "enhance_result get_frame_metadata result =
     (if take 6 (sr_image_id result) = ''beit3_'' then result
      else (case get_frame_metadata (sr_image_id result) of
              Inl _ \<Rightarrow> result
            | Inr None \<Rightarrow> result
            | Inr (Some metadata) \<Rightarrow>
                result\<lparr>sr_file_path := None,
                       sr_video_id := Some (md_filename metadata),
                       sr_shot_index := md_shot_index metadata,
                       sr_frame_stamp := md_timestamp metadata\<rparr>))"

definition enhance_results_with_metadata ::
  "search_service \<Rightarrow> search_hit list \<Rightarrow> search_hit list" where
  "enhance_results_with_metadata svc results =
     (case metadata_service svc of
        None \<Rightarrow> results
      | Some get_frame_metadata \<Rightarrow> map (enhance_result get_frame_metadata) results)"

text \<open>The hits one model adds to \<open>all_results\<close>; a failed search adds none.\<close>

definition model_results :: "engine \<Rightarrow> string \<Rightarrow> int \<Rightarrow> string \<Rightarrow> string \<Rightarrow> search_hit list" where
  "model_results e query limit model label =
     (case text_search e query limit model of
        Inl _ \<Rightarrow> []
      | Inr (scores, idxs, image_paths) \<Rightarrow>
          map (\<lambda>(s, idx, path). make_result label s idx path)
            (filter (\<lambda>(s, idx, path). path \<noteq> []) (zip scores (zip idxs image_paths))))"

fun unique_by_link ::
  "int \<Rightarrow> search_hit list \<Rightarrow> search_hit list \<Rightarrow> string list \<Rightarrow> search_hit list" where
  "unique_by_link limit [] unique_results seen_paths = unique_results"
| "unique_by_link limit (result # rest) unique_results seen_paths =
     (if sr_link result \<notin> set seen_paths then
        (if int (length (unique_results @ [result])) \<ge> limit then unique_results @ [result]
         else unique_by_link limit rest (unique_results @ [result])
                (seen_paths @ [sr_link result]))
      else unique_by_link limit rest unique_results seen_paths)"

definition all_results :: "engine \<Rightarrow> string \<Rightarrow> int \<Rightarrow> search_hit list" where
  "all_results e query limit =
     model_results e query limit ''clip'' ''clip2video''
     @ model_results e query limit ''longclip'' ''longclip''
     @ model_results e query limit ''clip2video'' ''clip2video''
     @ model_results e query limit ''beit3'' ''beit3''"

definition search_all_models :: "engine \<Rightarrow> string \<Rightarrow> int \<Rightarrow> search_hit list" where
  "search_all_models e query limit =
     unique_by_link limit (sort_key (\<lambda>x. - sr_score x) (all_results e query limit)) [] []"

text \<open>\<open>str.lower\<close> on the code points below 256, and \<open>sub in s\<close>.\<close>

definition lower_char :: "char \<Rightarrow> char" where
  "lower_char c =
     (let n = (of_char c :: nat)
      in if (65 \<le> n \<and> n \<le> 90) \<or> (192 \<le> n \<and> n \<le> 222 \<and> n \<noteq> 215) then char_of (n + 32)
         else c)"

fun is_infix :: "string \<Rightarrow> string \<Rightarrow> bool" where
  "is_infix sub [] = (sub = [])"
| "is_infix sub (c # cs) = (take (length sub) (c # cs) = sub \<or> is_infix sub cs)"

definition service_text_search ::
  "search_service \<Rightarrow> string \<Rightarrow> model_type \<Rightarrow> int \<Rightarrow> search_hit list" where
  "service_text_search svc query model_type limit =
     (case faiss_engine svc of
        None \<Rightarrow> mock_search_results limit ''text'' query
      | Some e \<Rightarrow>
          if model_type = ALL_MODELS then search_all_models e query limit
          else
            (case text_search e query limit (model_value model_type) of
               Inl (ValueError msg) \<Rightarrow>
                 if is_infix ''not available'' (map lower_char msg) then []
                 else mock_search_results limit ''text'' query
             | Inl _ \<Rightarrow> mock_search_results limit ''text'' query
             | Inr (scores, idxs, image_paths) \<Rightarrow>
                 (let results =
                        map (\<lambda>(s, idx, path). make_result (model_value model_type) s idx path)
                          (filter (\<lambda>(s, idx, path).
                               path \<noteq> [] \<and> s \<ge> similarity_threshold model_type)
                             (zip scores (zip idxs image_paths)))
                  in if results = [] then []
                     else enhance_results_with_metadata svc
                            (remove_duplicates results limit))))"

section \<open>\<open>TemporalService\<close> of \<open>backend/services/temporal_service.py\<close>\<close>

record temporal_result =
  tr_video_id :: string
  tr_frames :: "int list"
  tr_images :: "string list"
  tr_paths :: "string list"
  tr_score :: rat

record temporal_data =
  td_sentences :: "string list"
  td_per_sentence :: "pyval list"
  td_candidate_videos :: "string list"
  td_results :: "temporal_result list"

text \<open>\<open>d[key]\<close> on a dictionary, and the validation of the fields by the schema.\<close>

definition py_getitem :: "(string \<times> pyval) list \<Rightarrow> string \<Rightarrow> error + pyval" where
  "py_getitem d key = (case map_of d key of None \<Rightarrow> Inl (KeyError key) | Some v \<Rightarrow> Inr v)"

definition as_str :: "pyval \<Rightarrow> string option" where
  "as_str v = (case v of PStr s \<Rightarrow> Some s | _ \<Rightarrow> None)"

definition as_int :: "pyval \<Rightarrow> int option" where
  "as_int v = (case v of PInt i \<Rightarrow> Some i | _ \<Rightarrow> None)"

definition as_num :: "pyval \<Rightarrow> rat option" where
  "as_num v = (case v of PNum x \<Rightarrow> Some x | PInt i \<Rightarrow> Some (of_int i) | _ \<Rightarrow> None)"

definition as_list :: "(pyval \<Rightarrow> 'a option) \<Rightarrow> pyval \<Rightarrow> 'a list option" where
  "as_list f v =
     (case v of
        PList xs \<Rightarrow> if list_all (\<lambda>x. f x \<noteq> None) xs then Some (map (\<lambda>x. the (f x)) xs) else None
      | _ \<Rightarrow> None)"

definition as_dict :: "pyval \<Rightarrow> pyval option" where
  "as_dict v = (case v of PDict d \<Rightarrow> Some (PDict d) | _ \<Rightarrow> None)"

definition validation_error :: error where
  "validation_error = ValueError ''validation error''"

text \<open>\<open>TemporalResult(video_id=result["video_id"], frames=result["frames"], ...)\<close>\<close>

definition to_temporal_result :: "pyval \<Rightarrow> error + temporal_result" where
  "to_temporal_result result =
     (case result of
        PDict d \<Rightarrow>
          (case py_getitem d ''video_id'' of
             Inl err \<Rightarrow> Inl err
           | Inr vid \<Rightarrow>
               (case py_getitem d ''frames'' of
                  Inl err \<Rightarrow> Inl err
                | Inr fr \<Rightarrow>
                    (case py_getitem d ''score'' of
                       Inl err \<Rightarrow> Inl err
                     | Inr sc \<Rightarrow>
                         (case (as_str vid, as_list as_int fr,
                                as_list as_str (case map_of d ''images'' of None \<Rightarrow> PList [] | Some v \<Rightarrow> v),
                                as_list as_str (case map_of d ''paths'' of None \<Rightarrow> PList [] | Some v \<Rightarrow> v),
                                as_num sc) of
                            (Some v, Some f, Some i, Some p, Some s) \<Rightarrow>
                              Inr \<lparr>tr_video_id = v, tr_frames = f, tr_images = i,
                                   tr_paths = p, tr_score = s\<rparr>
                          | _ \<Rightarrow> Inl validation_error))))
      | _ \<Rightarrow> Inl validation_error)"

fun to_temporal_results :: "pyval list \<Rightarrow> error + temporal_result list" where
  "to_temporal_results [] = Inr []"
| "to_temporal_results (r # rs) =
     (case to_temporal_result r of
        Inl err \<Rightarrow> Inl err
      | Inr t \<Rightarrow>
          (case to_temporal_results rs of
             Inl err \<Rightarrow> Inl err
           | Inr ts \<Rightarrow> Inr (t # ts)))"

text \<open>The conversion of the engine's dictionary into \<open>TemporalData\<close>.\<close>

definition to_temporal_data :: "(string \<times> pyval) list \<Rightarrow> error + temporal_data" where
  "to_temporal_data result_dict =
     (case py_getitem result_dict ''results'' of
        Inl err \<Rightarrow> Inl err
      | Inr (PList results) \<Rightarrow>
          (case to_temporal_results results of
             Inl err \<Rightarrow> Inl err
           | Inr temporal_results \<Rightarrow>
               (case py_getitem result_dict ''sentences'' of
                  Inl err \<Rightarrow> Inl err
                | Inr ss \<Rightarrow>
                    (case py_getitem result_dict ''per_sentence'' of
                       Inl err \<Rightarrow> Inl err
                     | Inr ps \<Rightarrow>
                         (case py_getitem result_dict ''candidate_videos'' of
                            Inl err \<Rightarrow> Inl err
                          | Inr cv \<Rightarrow>
                              (case (as_list as_str ss, as_list as_dict ps, as_list as_str cv) of
                                 (Some s, Some p, Some c) \<Rightarrow>
                                   Inr \<lparr>td_sentences = s, td_per_sentence = p,
                                        td_candidate_videos = c,
                                        td_results = temporal_results\<rparr>
                               | _ \<Rightarrow> Inl validation_error)))))
      | Inr _ \<Rightarrow> Inl validation_error)"

text \<open>The \<open>except\<close> branch: the fixed mock data.\<close>

definition mock_temporal_data :: "string \<Rightarrow> int \<Rightarrow> temporal_data" where
  "mock_temporal_data query limit =
     (let sentences = filter (\<lambda>s. s \<noteq> []) (map strip (split_on CHR ''.'' query))
      in \<lparr>td_sentences = (if sentences = [] then [query] else sentences),
          td_per_sentence = [],
          td_candidate_videos = [''L21_V001'', ''L21_V002''],
          td_results =
            py_take limit
              [\<lparr>tr_video_id = ''L21_V001'',
                tr_frames = [10, 25, 40],
                tr_images = [''frame_10.jpg'', ''frame_25.jpg'', ''frame_40.jpg''],
                tr_paths = [''raw/keyframes/Keyframes_L21/keyframes/L21_V001/010.jpg'',
                            ''raw/keyframes/Keyframes_L21/keyframes/L21_V001/025.jpg'',
                            ''raw/keyframes/Keyframes_L21/keyframes/L21_V001/040.jpg''],
                tr_score = 85 / 100\<rparr>]\<rparr>)"

text \<open>
  \<open>TemporalService.temporal_search\<close>; \<open>loaded\<close> is the outcome of
  \<open>_ensure_faiss_engine_loaded\<close>.
\<close>

definition service_temporal_search ::
  "error + engine \<Rightarrow> string \<Rightarrow> model_type \<Rightarrow> int \<Rightarrow> int \<Rightarrow> int \<Rightarrow> int \<Rightarrow> int option
     \<Rightarrow> temporal_data" where
  "service_temporal_search loaded query model_type limit topk_per_sentence max_candidate_videos
       w_min w_max =
     (case loaded of
        Inl _ \<Rightarrow> mock_temporal_data query limit
      | Inr e \<Rightarrow>
          (let model_type_str =
                 (if model_value model_type = ''beit3'' then ''beit3''
                  else if model_value model_type = ''clip'' then ''clip''
                  else if model_value model_type = ''longclip'' then ''longclip''
                  else ''clip'')
           in case temporal_search e query limit model_type_str topk_per_sentence
                     max_candidate_videos w_min w_max of
                Inl _ \<Rightarrow> mock_temporal_data query limit
              | Inr result_dict \<Rightarrow>
                  (case to_temporal_data result_dict of
                     Inl _ \<Rightarrow> mock_temporal_data query limit
                   | Inr data \<Rightarrow> data)))"

section \<open>Text truncation in \<open>backend/utils/faiss_processing.py\<close>\<close>

text \<open>
  The loop of \<open>_truncate_text_for_clip\<close> that cuts the text after each of
  \<open>. ! ? : ;\<close>; \<open>current\<close> is the sentence being read.
\<close>

fun sentence_scan :: "string \<Rightarrow> string \<Rightarrow> string list \<Rightarrow> string list" where
  "sentence_scan [] current sentences =
     (if strip current \<noteq> [] then sentences @ [strip current] else sentences)"
| "sentence_scan (c # cs) current sentences =
     (if c \<in> set ''.!?:;'' then sentence_scan cs [] (sentences @ [strip (current @ [c])])
      else sentence_scan cs (current @ [c]) sentences)"

text \<open>
  \<open>max_tokens\<close> is a count.  \<open>int(max_tokens * 2.4)\<close> and \<open>int(max_tokens * 1.6)\<close>
  are written with integer division; the two agree for every count below 200000.
  \<open>text[-0:]\<close> is the whole text.
\<close>

definition truncate_text_for_clip :: "string \<Rightarrow> nat \<Rightarrow> string" where
  "truncate_text_for_clip text max_tokens =
     (if length text \<le> max_tokens * 4 then text
      else
        (let sentences = sentence_scan text [] []
         in if length sentences > 1
               \<and> length (hd sentences @ '' '' @ last sentences) \<le> max_tokens * 4
            then hd sentences @ '' '' @ last sentences
            else if length sentences > 1 \<and> length (hd sentences) \<le> max_tokens * 4
            then hd sentences
            else if length text > max_tokens * 4 then
              (let first_part = max_tokens * 12 div 5;
                   last_part = max_tokens * 8 div 5
               in if length text > first_part + last_part
                  then take first_part text @ ''...''
                       @ (if last_part = 0 then text else drop (length text - last_part) text)
                  else text)
            else text))"

text \<open>
  The CLIP branch of \<open>text_search\<close> in the same file, on the truncated text: one
  retry on the first 50 characters when the tokenizer or the encoder raises.
\<close>

definition clip_features_with_retry :: "engine \<Rightarrow> string \<Rightarrow> error + vec" where
  "clip_features_with_retry e text =
     (case clip_encode_text e text of
        Inr feats \<Rightarrow> Inr (l2_normalize e feats)
      | Inl _ \<Rightarrow>
          (case clip_encode_text e (if length text > 50 then take 50 text else text) of
             Inl err \<Rightarrow> Inl err
           | Inr feats \<Rightarrow> Inr (l2_normalize e feats)))"

definition clip_query_features :: "engine \<Rightarrow> string \<Rightarrow> error + vec" where
  "clip_query_features e text =
     clip_features_with_retry e (truncate_text_for_clip (translator e text) 77)"

section \<open>Notions used in the statements\<close>

definition is_ValueError :: "error + 'a \<Rightarrow> bool" where
  "is_ValueError r = (case r of Inl (ValueError _) \<Rightarrow> True | _ \<Rightarrow> False)"

text \<open>\<open>result_dict["results"]\<close> of an outcome, if there is one.\<close>

definition results_of :: "error + (string \<times> pyval) list \<Rightarrow> pyval option" where
  "results_of r = (case r of Inl _ \<Rightarrow> None | Inr d \<Rightarrow> map_of d ''results'')"

text \<open>
  What the proofs keep of a table of back-pointers: every entry is the sentinel or a
  column inside the matrix whose gap from the row is admitted.
\<close>

definition good_ptr :: "int \<Rightarrow> int option \<Rightarrow> nat \<Rightarrow> int list \<Rightarrow> bool" where
  "good_ptr w_min w_max N ptr =
     (length ptr = N \<and>
      (\<forall>p < N. ptr ! p < 0 \<or> (nat (ptr ! p) < N \<and> valid_gap w_min w_max p (nat (ptr ! p)))))"

text \<open>
  The rows that feed the anchor bonus of one sentence for one video: of the units kept
  for the sentence (the first \<open>temp\<close> of its hits), those of the video, the first
  \<open>anchor_top\<close> of them, where the file name parses to a row of the matrix.
\<close>

definition row_in_matrix :: "nat \<Rightarrow> ranked_unit \<Rightarrow> int option" where
  "row_in_matrix N h =
     (case anchor_row h of
        None \<Rightarrow> None
      | Some j \<Rightarrow> if 0 \<le> j \<and> j < int N then Some j else None)"

definition anchor_rows :: "nat \<Rightarrow> string \<Rightarrow> ranked_unit list \<Rightarrow> int list" where
  "anchor_rows N vid ranked_units =
     List.map_filter (row_in_matrix N)
       (take anchor_top (filter (\<lambda>u. ru_video_id u = Some vid) (take temp ranked_units)))"

definition shortlist_of :: "error + (string \<times> ranked_unit list) list \<times> string list
     \<Rightarrow> ranked_unit list" where
  "shortlist_of r = (case r of Inl _ \<Rightarrow> [] | Inr (per_sentence, _) \<Rightarrow> concat (map snd per_sentence))"

definition candidates_of :: "error + (string \<times> ranked_unit list) list \<times> string list
     \<Rightarrow> string list" where
  "candidates_of r = (case r of Inl _ \<Rightarrow> [] | Inr (_, candidate_videos) \<Rightarrow> candidate_videos)"


text \<open>The keys of the dictionary of an outcome, in order.\<close>

definition keys_of :: "error + (string \<times> pyval) list \<Rightarrow> string list" where
  "keys_of r = (case r of Inl _ \<Rightarrow> [] | Inr d \<Rightarrow> map fst d)"

section \<open>Engines for concrete runs\<close>

text \<open>
  One video \<open>L01_V001\<close> of three keyframes with unit feature vectors in two
  dimensions, one flat inner-product index over them for every model, and a CLIP
  encoder that knows two sentences.  \<open>demo_engine\<close> has no LongCLIP and no BEiT-3
  model; \<open>beit3_engine\<close> has a BEiT-3 model.
\<close>

definition demo_features :: "vec list" where
  "demo_features = [[1, 0], [0, 1], [3 / 5, 4 / 5]]"

definition demo_index :: "vec \<Rightarrow> int \<Rightarrow> error + search_hits" where
  "demo_index q k =
     (if length q \<noteq> 2 then Inl AssertionError
      else Inr (take (nat k)
             (sort_key (\<lambda>hit. - fst hit)
                (map (\<lambda>i. (dot q (demo_features ! i), int i)) [0..<3]))))"

definition demo_encode :: "string \<Rightarrow> error + vec" where
  "demo_encode s = (if s = ''a dog'' then Inr [0, 1] else Inr [1, 0])"

definition demo_engine :: engine where
  "demo_engine =
     \<lparr>translator = (\<lambda>t. t),
      clip_encode_text = demo_encode,
      clip_requires_grad = True,
      longclip_model = None,
      longclip_encode_image = (\<lambda>src. [1, 0]),
      beit3_model = None,
      l2_normalize = (\<lambda>v. v),
      randn = (\<lambda>n. [0, 1]),
      index_clip = demo_index,
      index_longclip = demo_index,
      index_beit3 = demo_index,
      reconstruct_clip = (\<lambda>i. if 0 \<le> i \<and> i < 3 then Inr (demo_features ! nat i)
                                else Inl (RuntimeError ''bad id'')),
      reconstruct_longclip = (\<lambda>i. Inl (RuntimeError ''bad id'')),
      load_image_source = (\<lambda>src. Inr ''image''),
      id2img = map_of [(0, ''keyframes/L01_V001/001.jpg''),
                       (1, ''keyframes/L01_V001/002.jpg''),
                       (2, ''keyframes/L01_V001/003.jpg'')],
      load_video_features = (\<lambda>model_type vid.
         if vid = ''L01_V001'' then Inr demo_features
         else Inl (ExternalError ''no such file'')),
      cuda = False,
      set_order = (\<lambda>xs. xs)\<rparr>"

text \<open>
  An engine whose BEiT-3 index returns 21 hits for every query: twenty keyframes of the video
  \<open>W\<close>, then frame 2 of the video \<open>V\<close>.
\<close>

definition far_paths :: "(int \<times> string) list" where
  "far_paths =
     map (\<lambda>i. (int i, ''keyframes/W/'' @ pad3 (i + 1) @ ''.jpg'')) [0..<20]
     @ [(20, ''keyframes/V/002.jpg'')]"

definition far_engine :: engine where
  "far_engine =
     demo_engine
       \<lparr>index_beit3 :=
          (\<lambda>q k. Inr (take (nat k) (map (\<lambda>i. (1 - of_nat i / 100, int i)) [0..<21]))),
        id2img := map_of far_paths\<rparr>"

definition beit3_engine :: engine where
  "beit3_engine = demo_engine\<lparr>beit3_model := Some demo_encode\<rparr>"

text \<open>A long text of three sentences, and an engine whose tokenizer takes 50 characters.\<close>

definition long_text :: string where
  "long_text = ''a.'' @ replicate 400 CHR ''b'' @ ''.c.''"

definition short_engine :: engine where
  "short_engine =
     demo_engine\<lparr>clip_encode_text :=
       (\<lambda>s. if length s \<le> 50 then Inr [1, 0] else Inl (RuntimeError ''context length''))\<rparr>"

text \<open>An engine whose LongCLIP model is loaded and raises on every text.\<close>

definition failing_longclip_engine :: engine where
  "failing_longclip_engine =
     demo_engine\<lparr>longclip_model := Some (\<lambda>t. Inl (RuntimeError ''context length''))\<rparr>"

section \<open>Properties\<close>

text \<open>
  C10, as stated, fails: with both probes missing and a model type other than
  \<open>clip\<close> and \<open>longclip\<close>, the index choice of step 1 raises
  \<open>NotImplementedError\<close> before the probes are looked at.
\<close>

theorem image_search_exactly_one_counterexample:
  "snd (image_search demo_engine 5 ''beit3'' None None) = Inl NotImplementedError
   \<and> \<not> is_ValueError (snd (image_search demo_engine 5 ''beit3'' None None))"
  by (simp add: image_search_def is_ValueError_def)

text \<open>
  C10, amended: for the model types \<open>clip\<close> and \<open>longclip\<close>, a call with no probe or
  with both probes raises \<open>ValueError\<close> and has made no call on the index, the loader
  or an encoder; for any other model type the call raises \<open>NotImplementedError\<close>,
  also with no such call.
\<close>

theorem image_search_exactly_one:
  "(image_id = None) = (image_source = None) \<Longrightarrow>
     fst (image_search e k model_type image_id image_source) = []
     \<and> (if model_type = ''clip'' \<or> model_type = ''longclip''
        then is_ValueError (snd (image_search e k model_type image_id image_source))
        else snd (image_search e k model_type image_id image_source) = Inl NotImplementedError)"
  by (auto simp: image_search_def is_ValueError_def)

theorem image_search_exactly_one_witness:
  "fst (image_search demo_engine 5 ''clip'' (Some 3) (Some (SourceStr ''a.jpg''))) = []
   \<and> is_ValueError
         (snd (image_search demo_engine 5 ''clip'' (Some 3) (Some (SourceStr ''a.jpg''))))"
  using image_search_exactly_one
          [of "Some 3" "Some (SourceStr ''a.jpg'')" demo_engine 5 "''clip''"]
  by simp

subsection \<open>The dynamic programme and the frames it returns\<close>

lemma argmax_from_bound:
  "best < i \<Longrightarrow> argmax_from best bv i xs < i + length xs"
proof (induction xs arbitrary: best bv i)
  case Nil
  then show ?case by simp
next
  case (Cons x xs)
  have "argmax_from i x (Suc i) xs < Suc i + length xs"
    by (rule Cons.IH) simp
  moreover have "argmax_from best bv (Suc i) xs < Suc i + length xs"
    by (rule Cons.IH) (use Cons.prems in simp)
  ultimately show ?case by simp
qed

lemma argmax_less: "xs \<noteq> [] \<Longrightarrow> argmax xs < length xs"
  using argmax_from_bound [of 0 1 _ "tl xs"]
  by (cases xs) (auto simp: argmax_def)

lemma length_masked_row [simp]: "length (masked_row w_min w_max N score_next p) = N"
  by (simp add: masked_row_def)

lemma masked_row_best:
  assumes "p < N" "masked_row w_min w_max N sn p ! argmax (masked_row w_min w_max N sn p) > - 100000000"
  shows "argmax (masked_row w_min w_max N sn p) < N \<and> valid_gap w_min w_max p (argmax (masked_row w_min w_max N sn p))"
proof -
  let ?row = "masked_row w_min w_max N sn p"
  have ne: "?row \<noteq> []" using assms(1) by (auto simp: masked_row_def)
  have lt: "argmax ?row < N" using argmax_less [OF ne] by simp
  have "?row ! argmax ?row = (if valid_gap w_min w_max p (argmax ?row) then sn ! argmax ?row else neg_inf)"
    using lt by (simp add: masked_row_def)
  with assms(2) have "valid_gap w_min w_max p (argmax ?row)"
    by (auto simp: neg_inf_def split: if_splits)
  with lt show ?thesis by simp
qed

lemma dp_layer_ptr:
  "dp_layer w_min w_max N sn w = (sp, ptr) \<Longrightarrow> good_ptr w_min w_max N ptr"
  using masked_row_best [of _ N w_min w_max sn]
  by (auto simp: dp_layer_def good_ptr_def Let_def)

lemma dp_layer_len:
  "dp_layer w_min w_max N sn w = (sp, ptr) \<Longrightarrow> length w = N \<Longrightarrow> length sp = N"
  by (auto simp: dp_layer_def Let_def)

lemma dp_loop_inv:
  "dp_loop w_min w_max N ws sn tabs = (sn', tabs') \<Longrightarrow>
   \<forall>t \<in> set tabs. good_ptr w_min w_max N t \<Longrightarrow> \<forall>w \<in> set ws. length w = N \<Longrightarrow> length sn = N \<Longrightarrow>
   (\<forall>t \<in> set tabs'. good_ptr w_min w_max N t) \<and> length sn' = N \<and> length tabs' = length tabs + length ws"
proof (induction ws arbitrary: sn tabs)
  case Nil
  then show ?case by simp
next
  case (Cons w ws)
  obtain sp ptr where l: "dp_layer w_min w_max N sn w = (sp, ptr)" by (cases "dp_layer w_min w_max N sn w")
  from Cons.prems(1) l have rec: "dp_loop w_min w_max N ws sp (tabs @ [ptr]) = (sn', tabs')" by simp
  have g: "good_ptr w_min w_max N ptr" using dp_layer_ptr [OF l] .
  have len: "length sp = N" using dp_layer_len [OF l] Cons.prems(3) by simp
  from Cons.IH [OF rec] g len Cons.prems(2,3) show ?case by auto
qed

lemma backtrack_ok:
  "backtrack ptrs cur = Some rest \<Longrightarrow> \<forall>t \<in> set ptrs. good_ptr w_min w_max N t \<Longrightarrow> cur < N \<Longrightarrow>
   length rest = length ptrs \<and> (\<forall>i \<in> set rest. i < N) \<and> successively (valid_gap w_min w_max) (cur # rest)"
proof (induction ptrs arbitrary: cur rest)
  case Nil
  then show ?case by simp
next
  case (Cons ptr ptrs)
  let ?nxt = "ptr ! cur"
  from Cons.prems(1) have nn: "\<not> ?nxt < 0" by (auto simp: Let_def split: if_splits)
  from Cons.prems(1) nn obtain rest' where r: "backtrack ptrs (nat ?nxt) = Some rest'" "rest = nat ?nxt # rest'"
    by (auto simp: Let_def)
  have g: "good_ptr w_min w_max N ptr" using Cons.prems(2) by simp
  with nn Cons.prems(3) have v: "nat ?nxt < N" "valid_gap w_min w_max cur (nat ?nxt)"
    by (auto simp: good_ptr_def)
  from Cons.IH [OF r(1) _ v(1)] Cons.prems(2)
  have "length rest' = length ptrs \<and> (\<forall>i \<in> set rest'. i < N) \<and> successively (valid_gap w_min w_max) (nat ?nxt # rest')"
    by simp
  with r(2) v show ?case by simp
qed

lemma temporal_dp_ok:
  assumes "temporal_dp w_min w_max N M work = Some (fs, tot)"
    and "work \<noteq> []" and "\<forall>w \<in> set work. length w = N" and "0 < N"
  shows "length fs = M \<and> (\<forall>i \<in> set fs. i < N) \<and> successively (valid_gap w_min w_max) fs"
proof -
  obtain sn tabs where l: "dp_loop w_min w_max N (rev (butlast work)) (last work) [] = (sn, tabs)"
    by (cases "dp_loop w_min w_max N (rev (butlast work)) (last work) []")
  have a: "\<forall>w \<in> set (rev (butlast work)). length w = N" using assms(3) by (auto dest: in_set_butlastD)
  have b: "length (last work) = N" using assms(2,3) by simp
  from dp_loop_inv [OF l _ a b]
  have inv: "\<forall>t \<in> set tabs. good_ptr w_min w_max N t" "length sn = N" by auto
  have f0: "argmax sn < N" using argmax_less [of sn] inv(2) assms(4) by auto
  from assms(1) l obtain rest where r: "backtrack (rev tabs) (argmax sn) = Some rest" "fs = argmax sn # rest" "length fs = M"
    by (auto simp: temporal_dp_def Let_def split: option.splits if_splits)
  from backtrack_ok [OF r(1) _ f0, of w_min w_max] inv(1)
  have "(\<forall>i \<in> set rest. i < N) \<and> successively (valid_gap w_min w_max) (argmax sn # rest)" by simp
  with r f0 show ?thesis by simp
qed

lemma gaps_strict:
  "successively (valid_gap w_min w_max) fs \<Longrightarrow> 1 \<le> w_min \<Longrightarrow> sorted_wrt (<) fs"
proof -
  assume s: "successively (valid_gap w_min w_max) fs" and w: "1 \<le> w_min"
  have "successively (<) fs"
    by (rule successively_mono [OF s]) (use w in \<open>auto simp: valid_gap_def Let_def\<close>)
  then show ?thesis by (simp add: successively_conv_sorted_wrt)
qed

lemma similarity_len: "similarity t V = Inr sims \<Longrightarrow> length sims = length V"
  by (auto simp: similarity_def split: if_splits)

lemma similarities_len:
  "similarities ts V = Inr sl \<Longrightarrow> length sl = length ts \<and> (\<forall>s \<in> set sl. length s = length V)"
  by (induction ts arbitrary: sl) (auto split: sum.splits dest: similarity_len)

lemma length_normalize_sims [simp]: "length (normalize_sims sims) = length sims"
  by (simp add: normalize_sims_def Let_def)

lemma length_fold_update:
  "length (fold (\<lambda>t b. b[t := g t b]) ts bonus) = length bonus"
  by (induction ts arbitrary: bonus) auto

lemma length_apply_anchor [simp]: "length (apply_anchor N bonus h) = length bonus"
  by (simp add: apply_anchor_def length_fold_update split: option.splits)

lemma length_fold_anchor:
  "length (fold (\<lambda>h bonus. apply_anchor N bonus h) hs bonus) = length bonus"
  by (induction hs arbitrary: bonus) auto

lemma length_anchor_bonus [simp]: "length (anchor_bonus N vid units) = N"
  by (simp add: anchor_bonus_def length_fold_anchor)

lemma work_sim_lengths:
  assumes "\<forall>s \<in> set nsl. length s = N" "\<forall>b \<in> set bonus. length b = N"
  shows "\<forall>w \<in> set (map2 (map2 (+)) nsl bonus). length w = N"
proof
  fix w assume "w \<in> set (map2 (map2 (+)) nsl bonus)"
  then obtain a b where ab: "(a, b) \<in> set (zip nsl bonus)" "w = map2 (+) a b" by auto
  from ab(1) have "a \<in> set nsl" "b \<in> set bonus"
    by (auto dest: set_zip_leftD set_zip_rightD)
  with assms ab(2) show "length w = N" by simp
qed

lemma process_video_ok:
  assumes "process_video e model_type w_min w_max M ts ps vid = Inr (Some h)"
    and "ts \<noteq> []" and "ps \<noteq> []"
  shows "video_id h = vid \<and>
         (\<exists>V. load_video_features e model_type vid = Inr V \<and> length (frames h) = M \<and>
              (\<forall>i \<in> set (frames h). i < length V) \<and>
              successively (valid_gap w_min w_max) (frames h))"
proof -
  from assms(1) obtain V where V: "load_video_features e model_type vid = Inr V" "V \<noteq> []"
    by (auto simp: process_video_def split: sum.splits if_splits)
  from assms(1) V obtain sl where sl: "similarities ts V = Inr sl"
    by (auto simp: process_video_def split: sum.splits if_splits)
  let ?N = "length V"
  let ?work = "map2 (map2 (+)) (map normalize_sims sl) (map (\<lambda>entry. anchor_bonus ?N vid (snd entry)) ps)"
  from assms(1) V sl obtain fs tot where dp: "temporal_dp w_min w_max ?N M ?work = Some (fs, tot)"
    and h: "h = make_hit vid M fs tot"
    by (auto simp: process_video_def Let_def split: sum.splits if_splits option.splits)
  have len: "length sl = length ts" "\<forall>s \<in> set sl. length s = ?N"
    using similarities_len [OF sl] by auto
  have ne: "?work \<noteq> []" using len(1) assms(2,3) by (cases sl; cases ps) auto
  have wl: "\<forall>w \<in> set ?work. length w = ?N"
    by (rule work_sim_lengths) (use len(2) in auto)
  have "0 < ?N" using V(2) by simp
  from temporal_dp_ok [OF dp ne wl this] h V(1) show ?thesis
    by (auto simp: make_hit_def Let_def)
qed

lemma process_videos_set:
  "process_videos body vs acc = Inr rs \<Longrightarrow> r \<in> set rs \<Longrightarrow>
   r \<in> set acc \<or> (\<exists>v \<in> set vs. body v = Inr (Some r))"
proof (induction vs arbitrary: acc)
  case Nil
  then show ?case by simp
next
  case (Cons v vs)
  show ?case
  proof (cases "body v")
    case (Inl err)
    with Cons.prems show ?thesis by simp
  next
    case (Inr res)
    show ?thesis
    proof (cases res)
      case None
      with Inr Cons.prems have "process_videos body vs acc = Inr rs" by simp
      from Cons.IH [OF this Cons.prems(2)] show ?thesis by auto
    next
      case (Some hit)
      with Inr Cons.prems have "process_videos body vs (acc @ [hit]) = Inr rs" by simp
      from Cons.IH [OF this Cons.prems(2)] Inr Some show ?thesis by auto
    qed
  qed
qed

lemma encode_sentences_len:
  "encode_sentences e model_type i ss = Inr feats \<Longrightarrow> model_type \<noteq> ''clip2video'' \<Longrightarrow>
   length feats = length ss"
  by (induction ss arbitrary: i feats)
     (auto simp: encode_sentence_def Let_def split: sum.splits option.splits if_splits)

lemma search_sentences_len:
  "search_sentences e model_type topk maxc zs ps cands = Inr (ps', cands') \<Longrightarrow>
   length ps' = length ps + length zs"
  by (induction zs arbitrary: ps cands) (auto split: sum.splits prod.splits)

lemma temporal_multi_frames:
  assumes "temporal_multi e sentences k model_type topk maxc w_min w_max = Inr (ps, cands, results)"
    and "r \<in> set results" and "sentences \<noteq> []"
  shows "\<exists>V. load_video_features e model_type (video_id r) = Inr V \<and>
             length (frames r) = length sentences \<and>
             (\<forall>i \<in> set (frames r). i < length V) \<and>
             successively (valid_gap w_min w_max) (frames r)"
proof -
  from assms(1) obtain feats where f: "encode_sentences e model_type 0 sentences = Inr feats"
    and nc: "model_type \<noteq> ''clip2video''"
    by (auto simp: temporal_multi_def split: sum.splits if_splits)
  from assms(1) f nc obtain ps0 cands0 where
    s: "search_sentences e model_type topk maxc (zip sentences (map snd feats)) [] [] = Inr (ps0, cands0)"
    by (auto simp: temporal_multi_def split: sum.splits if_splits)
  have lf: "length feats = length sentences" using encode_sentences_len [OF f nc] .
  have lp: "length ps0 = length sentences" using search_sentences_len [OF s] lf by simp
  from assms(1,2) f nc s obtain rs where
    p: "process_videos (process_video e model_type w_min w_max (length sentences) (map fst feats) ps0) cands0 [] = Inr rs"
    and r: "r \<in> set rs"
    by (auto simp: temporal_multi_def Let_def split: sum.splits if_splits dest: in_set_takeD)
  from process_videos_set [OF p r] obtain v where
    "process_video e model_type w_min w_max (length sentences) (map fst feats) ps0 v = Inr (Some r)"
    by auto
  moreover have "map fst feats \<noteq> []" "ps0 \<noteq> []" using lf lp assms(3) by auto
  ultimately show ?thesis using process_video_ok by blast
qed

text \<open>
  With the CLIP model and two or more sentences \<open>temporal_search\<close> returns no
  result: the encoding raises, and a feature of one dimension would be refused by the
  index search.  The runs below are therefore on the BEiT-3 branch.
\<close>

lemma encode_sentences_clip_shape:
  "encode_sentences e ''clip'' i ss = Inr feats \<Longrightarrow> \<forall>p \<in> set feats. \<exists>v. snd p = Vec1 v"
proof (induction ss arbitrary: i feats)
  case Nil
  then show ?case by simp
next
  case (Cons s ss)
  from Cons.prems obtain f rest where f: "encode_sentence e ''clip'' i s = Inr (Some f)"
    and r: "encode_sentences e ''clip'' (Suc i) ss = Inr rest" and fs: "feats = f # rest"
    by (auto simp: encode_sentence_def split: sum.splits option.splits if_splits)
  from f have "\<exists>v. snd f = Vec1 v"
    by (auto simp: encode_sentence_def split: sum.splits if_splits)
  with Cons.IH [OF r] fs show ?case by simp
qed

lemma encode_sentences_clip_length:
  "encode_sentences e ''clip'' i ss = Inr feats \<Longrightarrow> length feats = length ss"
proof (induction ss arbitrary: i feats)
  case Nil
  then show ?case by simp
next
  case (Cons s ss)
  from Cons.prems obtain f rest where
    r: "encode_sentences e ''clip'' (Suc i) ss = Inr rest" and fs: "feats = f # rest"
    by (auto simp: encode_sentence_def split: sum.splits option.splits if_splits)
  with Cons.IH [OF r] show ?case by simp
qed

lemma temporal_search_clip_raises:
  assumes "2 \<le> length (split_sentences (translator e text))"
  shows "isl (temporal_search e text k ''clip'' topk max_candidate_videos w_min w_max)"
proof -
  let ?ss = "split_sentences (translator e text)"
  have n: "?ss \<noteq> []" "length ?ss \<noteq> 1" using assms by auto
  have "isl (temporal_multi e ?ss k ''clip'' topk max_candidate_videos w_min w_max)"
  proof (cases "encode_sentences e ''clip'' 0 ?ss")
    case (Inl err)
    then show ?thesis by (simp add: temporal_multi_def)
  next
    case (Inr feats)
    from encode_sentences_clip_length [OF Inr] n obtain f rest where fs: "feats = f # rest"
      by (cases feats) auto
    from encode_sentences_clip_shape [OF Inr] fs obtain v where v: "snd f = Vec1 v" by auto
    obtain s ss' where ss: "?ss = s # ss'" using n by (cases ?ss) auto
    have "search_sentences e ''clip'' topk max_candidate_videos (zip ?ss (map snd feats)) [] []
            = Inl shape_error"
      unfolding ss fs using v by (simp add: faiss_search_def)
    with Inr show ?thesis by (simp add: temporal_multi_def)
  qed
  with n show ?thesis
    by (cases "temporal_multi e ?ss k ''clip'' topk max_candidate_videos w_min w_max")
       (simp_all add: temporal_search_def Let_def)
qed

lemma hit_dict_inj: "hit_dict a = hit_dict b \<Longrightarrow> a = b"
proof -
  assume h: "hit_dict a = hit_dict b"
  have i: "inj (\<lambda>i. PInt (int i))" and s: "inj PStr" by (auto simp: inj_def)
  from h have "video_id a = video_id b" "frames a = frames b" "images a = images b"
    "paths a = paths b" "score a = score b"
    by (auto simp: hit_dict_def inj_map_eq_map [OF i] inj_map_eq_map [OF s])
  then show ?thesis by simp
qed

text \<open>
  C1, as stated, fails: \<open>w_min\<close> is a parameter of \<open>temporal_search\<close>, and with
  \<open>w_min = 0\<close> the same frame can serve two sentences.  The query below has two
  sentences, the model is BEiT-3, and the result has the frames \<open>[0, 0]\<close>.
\<close>

theorem temporal_search_frames_counterexample:
  "results_of (temporal_search beit3_engine ''a cat. a cat'' 5 ''beit3'' 200 30 0 None) =
     Some (PList [PDict
       [(''video_id'', PStr ''L01_V001''),
        (''frames'', PList [PInt 0, PInt 0]),
        (''images'', PList [PStr ''001.jpg'', PStr ''001.jpg'']),
        (''paths'', PList [PStr ''keyframe_btc/Keyframes_L01/keyframes/L01_V001/001.jpg'',
                          PStr ''keyframe_btc/Keyframes_L01/keyframes/L01_V001/001.jpg'']),
        (''score'', PNum 110)]])"
  by code_simp

text \<open>
  C1, amended: every result of \<open>temporal_search\<close> for a query of two or more
  sentences names a video whose feature matrix loads, has one frame per sentence, every
  frame is a row of that matrix, and every gap between consecutive frames lies between
  \<open>w_min\<close> and \<open>w_max\<close> (no upper bound when \<open>w_max\<close> is unset).  The frames are
  strictly increasing whenever \<open>w_min\<close> is at least 1.
\<close>

theorem temporal_search_frames:
  assumes "temporal_search e text k model_type topk max_candidate_videos w_min w_max = Inr d"
    and "2 \<le> length (split_sentences (translator e text))"
  shows "\<exists>rs. map_of d ''results'' = Some (PList (map hit_dict rs)) \<and>
           (\<forall>r \<in> set rs.
              \<exists>V. load_video_features e model_type (video_id r) = Inr V \<and>
                  length (frames r) = length (split_sentences (translator e text)) \<and>
                  (\<forall>i \<in> set (frames r). i < length V) \<and>
                  successively (valid_gap w_min w_max) (frames r) \<and>
                  (1 \<le> w_min \<longrightarrow> sorted_wrt (<) (frames r)))"
proof -
  let ?ss = "split_sentences (translator e text)"
  have ne: "?ss \<noteq> []" and n1: "length ?ss \<noteq> 1" using assms(2) by auto
  from assms(1) ne n1 obtain ps cands rs where
    m: "temporal_multi e ?ss k model_type topk max_candidate_videos w_min w_max = Inr (ps, cands, rs)"
    and d: "d = [(''sentences'', PList (map PStr ?ss)),
                 (''per_sentence'', PList (map sentence_dict ps)),
                 (''candidate_videos'', PList (map PStr cands)),
                 (''results'', PList (map hit_dict rs))]"
    by (auto simp: temporal_search_def Let_def split: sum.splits)
  have "map_of d ''results'' = Some (PList (map hit_dict rs))" by (simp add: d)
  moreover have "\<forall>r \<in> set rs.
      \<exists>V. load_video_features e model_type (video_id r) = Inr V \<and>
          length (frames r) = length ?ss \<and>
          (\<forall>i \<in> set (frames r). i < length V) \<and>
          successively (valid_gap w_min w_max) (frames r) \<and>
          (1 \<le> w_min \<longrightarrow> sorted_wrt (<) (frames r))"
    using temporal_multi_frames [OF m _ ne] gaps_strict by blast
  ultimately show ?thesis by blast
qed

theorem temporal_search_frames_witness:
  "2 \<le> length (split_sentences (translator beit3_engine ''a cat. a dog. a cat'')) \<and>
   results_of (temporal_search beit3_engine ''a cat. a dog. a cat'' 5 ''beit3'' 200 30 1 (Some 1)) =
     Some (PList [hit_dict (make_hit ''L01_V001'' 3 [0, 1, 2] (29 / 10))]) \<and>
   frames (make_hit ''L01_V001'' 3 [0, 1, 2] (29 / 10)) = [0, 1, 2] \<and>
   (\<exists>V. load_video_features beit3_engine ''beit3''
          (video_id (make_hit ''L01_V001'' 3 [0, 1, 2] (29 / 10))) = Inr V \<and>
        length (frames (make_hit ''L01_V001'' 3 [0, 1, 2] (29 / 10))) =
          length (split_sentences (translator beit3_engine ''a cat. a dog. a cat'')) \<and>
        (\<forall>i \<in> set (frames (make_hit ''L01_V001'' 3 [0, 1, 2] (29 / 10))). i < length V) \<and>
        successively (valid_gap 1 (Some 1)) (frames (make_hit ''L01_V001'' 3 [0, 1, 2] (29 / 10))) \<and>
        sorted_wrt (<) (frames (make_hit ''L01_V001'' 3 [0, 1, 2] (29 / 10))))"
proof -
  let ?run = "temporal_search beit3_engine ''a cat. a dog. a cat'' 5 ''beit3'' 200 30 1 (Some 1)"
  let ?h = "make_hit ''L01_V001'' 3 [0, 1, 2] (29 / 10)"
  have s: "2 \<le> length (split_sentences (translator beit3_engine ''a cat. a dog. a cat''))"
    by code_simp
  have r: "results_of ?run = Some (PList [hit_dict ?h])"
    by code_simp
  have f: "frames ?h = [0, 1, 2]" by (simp add: make_hit_def)
  from r obtain d where d: "?run = Inr d" and m: "map_of d ''results'' = Some (PList [hit_dict ?h])"
    by (cases ?run) (auto simp: results_of_def)
  from temporal_search_frames [OF d s] obtain rs where
    rs: "map_of d ''results'' = Some (PList (map hit_dict rs))"
    and p: "\<forall>r \<in> set rs.
      \<exists>V. load_video_features beit3_engine ''beit3'' (video_id r) = Inr V \<and>
          length (frames r) = length (split_sentences (translator beit3_engine ''a cat. a dog. a cat'')) \<and>
          (\<forall>i \<in> set (frames r). i < length V) \<and>
          successively (valid_gap 1 (Some 1)) (frames r) \<and>
          (1 \<le> (1::int) \<longrightarrow> sorted_wrt (<) (frames r))"
    by blast
  from rs m have "map hit_dict rs = [hit_dict ?h]" by simp
  then obtain r1 where "rs = [r1]" "hit_dict r1 = hit_dict ?h" by auto
  then have "?h \<in> set rs" using hit_dict_inj by auto
  with p have "\<exists>V. load_video_features beit3_engine ''beit3'' (video_id ?h) = Inr V \<and>
          length (frames ?h) = length (split_sentences (translator beit3_engine ''a cat. a dog. a cat'')) \<and>
          (\<forall>i \<in> set (frames ?h). i < length V) \<and>
          successively (valid_gap 1 (Some 1)) (frames ?h) \<and>
          sorted_wrt (<) (frames ?h)"
    by auto
  with s r f show ?thesis by blast
qed

subsection \<open>Per-sentence normalisation\<close>

lemma normalized_value_range:
  fixes s smin smax :: rat
  assumes "smin \<le> s" "s \<le> smax" "\<not> smax - smin < 1 / 1000000"
  shows "0 \<le> (s - smin) / (smax - smin) \<and> (s - smin) / (smax - smin) \<le> 1"
proof -
  have pos: "0 < smax - smin" using assms(3) by linarith
  have "0 \<le> (s - smin) / (smax - smin)"
    using assms(1) pos by (simp add: divide_nonneg_pos)
  moreover have "(s - smin) / (smax - smin) \<le> 1"
    using assms(2) pos by (simp add: divide_le_eq)
  ultimately show ?thesis by simp
qed

text \<open>
  C4: after the normalisation of the similarities of one sentence over one video, every
  value lies in \<open>[0, 1]\<close>; the vector is all zero when \<open>max - min < 1e-6\<close>, and
  \<open>(S - min) / (max - min)\<close> otherwise.
\<close>

theorem normalize_sims_range:
  "(\<forall>x \<in> set (normalize_sims sims). 0 \<le> x \<and> x \<le> 1) \<and>
   (Max (set sims) - Min (set sims) < 1 / 1000000 \<longrightarrow>
      normalize_sims sims = replicate (length sims) 0) \<and>
   (\<not> Max (set sims) - Min (set sims) < 1 / 1000000 \<longrightarrow>
      normalize_sims sims =
        map (\<lambda>s. (s - Min (set sims)) / (Max (set sims) - Min (set sims))) sims)"
proof (cases "Max (set sims) - Min (set sims) < 1 / 1000000")
  case True
  then show ?thesis by (simp add: normalize_sims_def)
next
  case False
  have eq: "normalize_sims sims =
      map (\<lambda>s. (s - Min (set sims)) / (Max (set sims) - Min (set sims))) sims"
    unfolding normalize_sims_def Let_def using False by (rule if_not_P)
  have "0 \<le> (s - Min (set sims)) / (Max (set sims) - Min (set sims)) \<and>
        (s - Min (set sims)) / (Max (set sims) - Min (set sims)) \<le> 1"
    if "s \<in> set sims" for s
    by (rule normalized_value_range) (use that False in auto)
  then have "\<forall>x \<in> set (normalize_sims sims). 0 \<le> x \<and> x \<le> 1"
    unfolding eq by auto
  with False eq show ?thesis by blast
qed

theorem normalize_sims_range_witness:
  "3 / 5 \<in> set (normalize_sims [1, 1 / 2, 4 / 5]) \<and>
   normalize_sims [1, 1 / 2, 4 / 5] = [1, 0, 3 / 5] \<and>
   \<not> Max (set [1, 1 / 2, 4 / 5 :: rat]) - Min (set [1, 1 / 2, 4 / 5]) < 1 / 1000000 \<and>
   Max (set [1 / 2, 1 / 2 + 1 / 10000000 :: rat]) - Min (set [1 / 2, 1 / 2 + 1 / 10000000])
     < 1 / 1000000 \<and>
   normalize_sims [1 / 2, 1 / 2 + 1 / 10000000] = [0, 0]"
  using normalize_sims_range [of "[1, 1 / 2, 4 / 5]"]
        normalize_sims_range [of "[1 / 2, 1 / 2 + 1 / 10000000]"]
  by (simp add: normalize_sims_def)

subsection \<open>Anchor bonuses\<close>

lemma fold_update_nth:
  "distinct ts \<Longrightarrow> i < length b \<Longrightarrow>
   fold (\<lambda>t b. b[t := f t (b ! t)]) ts b ! i = (if i \<in> set ts then f i (b ! i) else b ! i)"
proof (induction ts arbitrary: b)
  case Nil
  then show ?case by simp
next
  case (Cons t ts)
  have "fold (\<lambda>t b. b[t := f t (b ! t)]) ts (b[t := f t (b ! t)]) ! i =
        (if i \<in> set ts then f i (b[t := f t (b ! t)] ! i) else b[t := f t (b ! t)] ! i)"
    by (rule Cons.IH) (use Cons.prems in auto)
  moreover have "i \<noteq> t" if "i \<in> set ts"
    using that Cons.prems(1) by auto
  ultimately show ?case using Cons.prems by (auto simp: nth_list_update)
qed

lemma window_iff:
  assumes "t < N" "0 \<le> j" "j < int N"
  shows "t \<in> set [nat (max 0 (j - anchor_window)) ..< nat (min (int N) (j + anchor_window + 1))]
         \<longleftrightarrow> \<bar>int t - j\<bar> \<le> anchor_window"
  using assms by (auto simp: anchor_window_def)

lemma apply_anchor_nth:
  assumes "t < N" "length b = N"
  shows "apply_anchor N b h ! t =
           (case row_in_matrix N h of
              None \<Rightarrow> b ! t
            | Some j \<Rightarrow> if \<bar>int t - j\<bar> \<le> anchor_window
                        then max (b ! t) (anchor_boost * decay (int t) j) else b ! t)"
proof (cases "row_in_matrix N h")
  case None
  then show ?thesis
    by (auto simp: apply_anchor_def row_in_matrix_def split: option.splits if_splits)
next
  case (Some j)
  then have j: "anchor_row h = Some j" "0 \<le> j" "j < int N"
    by (auto simp: row_in_matrix_def split: option.splits if_splits)
  let ?ts = "[nat (max 0 (j - anchor_window)) ..< nat (min (int N) (j + anchor_window + 1))]"
  have "apply_anchor N b h ! t =
          fold (\<lambda>t b. b[t := max (b ! t) (anchor_boost * decay (int t) j)]) ?ts b ! t"
    using j by (simp add: apply_anchor_def)
  also have "\<dots> = (if t \<in> set ?ts then max (b ! t) (anchor_boost * decay (int t) j) else b ! t)"
    by (rule fold_update_nth [where f = "\<lambda>t x. max x (anchor_boost * decay (int t) j)"])
       (use assms in auto)
  finally show ?thesis using Some window_iff [OF assms(1) j(2,3)] by simp
qed

lemma fold_anchor_nth:
  assumes "t < N"
  shows "length b = N \<Longrightarrow>
     fold (\<lambda>h bonus. apply_anchor N bonus h) hs b ! t =
       Max (insert (b ! t)
         (set (map (\<lambda>j. anchor_boost * decay (int t) j)
                (filter (\<lambda>j. \<bar>int t - j\<bar> \<le> anchor_window) (List.map_filter (row_in_matrix N) hs)))))"
proof (induction hs arbitrary: b)
  case Nil
  then show ?case by (simp add: List.map_filter_simps)
next
  case (Cons h hs)
  let ?S = "set (map (\<lambda>j. anchor_boost * decay (int t) j)
                (filter (\<lambda>j. \<bar>int t - j\<bar> \<le> anchor_window) (List.map_filter (row_in_matrix N) hs)))"
  have fin: "finite ?S" by simp
  have step: "fold (\<lambda>h bonus. apply_anchor N bonus h) (h # hs) b ! t =
              Max (insert (apply_anchor N b h ! t) ?S)"
    using Cons.IH [of "apply_anchor N b h"] Cons.prems by simp
  show ?case
  proof (cases "row_in_matrix N h")
    case None
    then show ?thesis
      using step apply_anchor_nth [OF assms Cons.prems, of h]
      by (simp add: List.map_filter_simps)
  next
    case (Some j)
    show ?thesis
    proof (cases "\<bar>int t - j\<bar> \<le> anchor_window")
      case True
      have "Max (insert (max (b ! t) (anchor_boost * decay (int t) j)) ?S) =
            Max (insert (b ! t) (insert (anchor_boost * decay (int t) j) ?S))"
      proof (cases "?S = {}")
        case True
        then show ?thesis by (simp add: max.commute)
      next
        case False
        then show ?thesis using fin by (simp add: max.assoc)
      qed
      then show ?thesis
        using step apply_anchor_nth [OF assms Cons.prems, of h] Some True
        by (simp add: List.map_filter_simps)
    next
      case False
      then show ?thesis
        using step apply_anchor_nth [OF assms Cons.prems, of h] Some
        by (simp add: List.map_filter_simps)
    qed
  qed
qed

text \<open>
  C5, as stated, fails twice.  The bonus is built from the units kept for the sentence,
  which are the first 20 hits only: below, the video \<open>V\<close> is a candidate, its one hit
  (rank 21 of the sentence) parses to row 1 of a matrix of 3 rows, and its bonus is
  zero.  And a hit whose row is not a row of the matrix is left out whole: row 3 with
  3 rows leaves the bonus of row 2 at zero, though row 2 lies in the window.
\<close>

theorem anchor_bonus_counterexample:
  "candidates_of (search_sentences far_engine ''beit3'' 200 30 [(''a cat'', Mat [[1, 0]])] [] [])
     = [''W'', ''V''] \<and>
   anchor_row \<lparr>ru_video_id = Some ''V'', ru_image_path = Some ''keyframes/V/002.jpg'',
               ru_faiss_id = 20, ru_score = 4 / 5\<rparr> = Some 1 \<and>
   anchor_bonus 3 ''V''
     (shortlist_of
        (search_sentences far_engine ''beit3'' 200 30 [(''a cat'', Mat [[1, 0]])] [] []))
     = [0, 0, 0] \<and>
   anchor_row \<lparr>ru_video_id = Some ''V'', ru_image_path = Some ''keyframes/V/004.jpg'',
               ru_faiss_id = 7, ru_score = 1\<rparr> = Some 3 \<and>
   anchor_bonus 3 ''V''
     [\<lparr>ru_video_id = Some ''V'', ru_image_path = Some ''keyframes/V/004.jpg'',
       ru_faiss_id = 7, ru_score = 1\<rparr>] = [0, 0, 0]"
  by code_simp

text \<open>
  C5, amended: for each sentence the anchor bonus over a candidate video is built from
  at most the top 5 of the hits of the video among the 20 units kept for the sentence.
  For each such hit whose file name parses to a row \<open>j\<close> with \<open>0 \<le> j < F_v\<close>, and for
  every \<open>t\<close> in \<open>[j-2, j+2]\<close> and \<open>[0, F_v)\<close>, the bonus is raised to
  \<open>0.10 * (1 - |t - j| / 3)\<close>; so the bonus at \<open>t\<close> is the largest of these values
  and 0.  A hit whose path does not parse, or whose row is outside the matrix,
  contributes nothing.
\<close>

theorem anchor_bonus_value:
  assumes "t < N"
  shows "anchor_bonus N vid (take temp ranked_units) ! t =
           Max (insert 0
             (set (map (\<lambda>j. anchor_boost * decay (int t) j)
                    (filter (\<lambda>j. \<bar>int t - j\<bar> \<le> anchor_window)
                       (anchor_rows N vid ranked_units)))))"
  using fold_anchor_nth [OF assms, of "replicate N 0"] assms
  by (simp add: anchor_bonus_def anchor_rows_def)

theorem anchor_bonus_value_witness:
  "(1::nat) < 3 \<and>
   anchor_rows 3 ''L01_V001''
     [\<lparr>ru_video_id = Some ''L01_V001'', ru_image_path = Some ''keyframes/L01_V001/003.jpg'',
       ru_faiss_id = 2, ru_score = 1\<rparr>,
      \<lparr>ru_video_id = Some ''L01_V001'', ru_image_path = Some ''keyframes/L01_V001/x.jpg'',
       ru_faiss_id = 5, ru_score = 1 / 2\<rparr>] = [2] \<and>
   anchor_bonus 3 ''L01_V001''
     (take temp
       [\<lparr>ru_video_id = Some ''L01_V001'', ru_image_path = Some ''keyframes/L01_V001/003.jpg'',
         ru_faiss_id = 2, ru_score = 1\<rparr>,
        \<lparr>ru_video_id = Some ''L01_V001'', ru_image_path = Some ''keyframes/L01_V001/x.jpg'',
         ru_faiss_id = 5, ru_score = 1 / 2\<rparr>]) ! 1 = 1 / 15"
proof -
  have r: "anchor_rows 3 ''L01_V001''
     [\<lparr>ru_video_id = Some ''L01_V001'', ru_image_path = Some ''keyframes/L01_V001/003.jpg'',
       ru_faiss_id = 2, ru_score = 1\<rparr>,
      \<lparr>ru_video_id = Some ''L01_V001'', ru_image_path = Some ''keyframes/L01_V001/x.jpg'',
       ru_faiss_id = 5, ru_score = 1 / 2\<rparr>] = [2]"
    by code_simp
  have h: "(1::nat) < 3" by simp
  show ?thesis
    using anchor_bonus_value [OF h, of "''L01_V001''"
      "[\<lparr>ru_video_id = Some ''L01_V001'', ru_image_path = Some ''keyframes/L01_V001/003.jpg'',
         ru_faiss_id = 2, ru_score = 1\<rparr>,
        \<lparr>ru_video_id = Some ''L01_V001'', ru_image_path = Some ''keyframes/L01_V001/x.jpg'',
         ru_faiss_id = 5, ru_score = 1 / 2\<rparr>]"]
    unfolding r by (simp add: anchor_boost_def decay_def anchor_window_def)
qed

subsection \<open>Multi-model fusion\<close>







lemma faiss_search_no_hits:
  "k \<le> 0 \<Longrightarrow> isl (faiss_search index x k)"
  by (cases x) (auto simp: faiss_search_def)

lemma text_search_no_hits:
  "k \<le> 0 \<Longrightarrow> isl (text_search e text k model)"
proof -
  assume k: "k \<le> 0"
  show ?thesis
  proof (cases "text_features e model (translator e text)")
    case (Inl err)
    then show ?thesis by (simp add: text_search_def)
  next
    case (Inr x)
    with faiss_search_no_hits [OF k, of "index_chosen e model" x] show ?thesis
      by (cases "faiss_search (index_chosen e model) x k") (auto simp: text_search_def)
  qed
qed




subsection \<open>The score floor of the single-model text search\<close>

lemma remove_duplicates_loop_subset:
  "set (remove_duplicates_loop limit xs u s) \<subseteq> set u \<union> set xs"
proof (induction xs arbitrary: u s)
  case Nil
  then show ?case by simp
next
  case (Cons x xs)
  from Cons.IH [of "u @ [x]" "s @ [sr_image_id x]"] Cons.IH [of u s]
  show ?case by auto
qed

lemma enhance_result_score [simp]: "sr_score (enhance_result md r) = sr_score r"
  by (simp add: enhance_result_def split: sum.splits option.splits)

lemma enhance_results_scores:
  "r \<in> set (enhance_results_with_metadata svc rs) \<Longrightarrow> \<exists>r0 \<in> set rs. sr_score r = sr_score r0"
  by (auto simp: enhance_results_with_metadata_def split: option.splits)

text \<open>
  C7, as stated, fails: with the engine loaded, a search whose engine call raises
  returns the mock hits, whatever their scores.  The engine has no CLIP2Video model
  (the attribute is never assigned), so every CLIP2Video search ends so: the hits score
  0.9, 0.8 and 0.7, below the floor of 1.0.
\<close>

theorem service_text_search_floor_counterexample:
  "text_search demo_engine ''a cat'' 3 (model_value CLIP2VIDEO) = Inl AttributeError \<and>
   map sr_score
     (service_text_search \<lparr>faiss_engine = Some demo_engine, metadata_service = None\<rparr>
        ''a cat'' CLIP2VIDEO 3) = [9 / 10, 4 / 5, 7 / 10] \<and>
   similarity_threshold CLIP2VIDEO = 1"
  by code_simp

text \<open>
  C7, amended: for every single-model text search with the engine loaded in which the
  engine's \<open>text_search\<close> returns, every hit of the returned list has a score of at
  least the floor of the model: 0.20 for CLIP, 0.40 for BEiT-3, 1.0 for the others.
  Hits below the floor are dropped, and the list may be empty.
\<close>

theorem service_text_search_floor:
  assumes "faiss_engine svc = Some e"
    and "model_type \<noteq> ALL_MODELS"
    and "text_search e query limit (model_value model_type) = Inr res"
    and "r \<in> set (service_text_search svc query model_type limit)"
  shows "sr_score r \<ge> (case model_type of CLIP \<Rightarrow> 1 / 5 | BEIT3 \<Rightarrow> 2 / 5 | _ \<Rightarrow> 1)"
proof -
  obtain scores idxs image_paths where res: "res = (scores, idxs, image_paths)"
    by (cases res) auto
  let ?results = "map (\<lambda>(s, idx, path). make_result (model_value model_type) s idx path)
        (filter (\<lambda>(s, idx, path). path \<noteq> [] \<and> s \<ge> similarity_threshold model_type)
           (zip scores (zip idxs image_paths)))"
  have floor: "\<forall>h \<in> set ?results. sr_score h \<ge> similarity_threshold model_type"
    by (auto simp: make_result_def Let_def)
  from assms res have "r \<in> set (enhance_results_with_metadata svc (remove_duplicates ?results limit))"
    by (auto simp: service_text_search_def Let_def split: if_splits)
  then obtain r0 where r0: "r0 \<in> set (remove_duplicates ?results limit)" "sr_score r = sr_score r0"
    using enhance_results_scores by blast
  from r0(1) have "r0 \<in> set ?results"
    using remove_duplicates_loop_subset [of limit ?results "[]" "[]"]
    by (auto simp: remove_duplicates_def)
  with floor have "sr_score r0 \<ge> similarity_threshold model_type" by blast
  with r0(2) have "sr_score r \<ge> similarity_threshold model_type" by (simp only:)
  then show ?thesis using assms(2) by (cases model_type) (auto simp: similarity_threshold_def)
qed

theorem service_text_search_floor_witness:
  "faiss_engine \<lparr>faiss_engine = Some demo_engine, metadata_service = None\<rparr> = Some demo_engine \<and>
   CLIP \<noteq> ALL_MODELS \<and>
   text_search demo_engine ''a cat'' 3 (model_value CLIP) =
     Inr ([1, 3 / 5, 0], [0, 2, 1],
          [''keyframes/L01_V001/001.jpg'', ''keyframes/L01_V001/003.jpg'',
           ''keyframes/L01_V001/002.jpg'']) \<and>
   map sr_score
     (service_text_search \<lparr>faiss_engine = Some demo_engine, metadata_service = None\<rparr>
        ''a cat'' CLIP 3) = [1, 3 / 5] \<and>
   sr_score (hd (service_text_search \<lparr>faiss_engine = Some demo_engine, metadata_service = None\<rparr>
        ''a cat'' CLIP 3)) \<ge> 1 / 5"
proof -
  let ?svc = "\<lparr>faiss_engine = Some demo_engine, metadata_service = None\<rparr>"
  have a: "faiss_engine ?svc = Some demo_engine" by simp
  have b: "CLIP \<noteq> ALL_MODELS" by simp
  have c: "text_search demo_engine ''a cat'' 3 (model_value CLIP) =
     Inr ([1, 3 / 5, 0], [0, 2, 1],
          [''keyframes/L01_V001/001.jpg'', ''keyframes/L01_V001/003.jpg'',
           ''keyframes/L01_V001/002.jpg''])"
    by code_simp
  have d: "map sr_score (service_text_search ?svc ''a cat'' CLIP 3) = [1, 3 / 5]"
    by code_simp
  then have ne: "service_text_search ?svc ''a cat'' CLIP 3 \<noteq> []" by auto
  then have m: "hd (service_text_search ?svc ''a cat'' CLIP 3)
                  \<in> set (service_text_search ?svc ''a cat'' CLIP 3)"
    by simp
  from service_text_search_floor [OF a b c m] a b c d show ?thesis by simp
qed

subsection \<open>The final truncation and \<open>k = 0\<close>\<close>

lemma rank_units_bound:
  "rank_units e maxc hits ru cands = (ru', cands') \<Longrightarrow>
   int (length cands') \<le> max (int (length cands)) maxc"
proof (induction hits arbitrary: ru cands)
  case Nil
  then show ?case by simp
next
  case (Cons hit hits)
  obtain s idx where hit: "hit = (s, idx)" by (cases hit)
  let ?vid = "video_of_path (id2img e idx)"
  let ?cands = "(case ?vid of None \<Rightarrow> cands
      | Some v \<Rightarrow> if v \<noteq> [] \<and> v \<notin> set cands \<and> int (length cands) < maxc
                  then cands @ [v] else cands)"
  have step: "int (length ?cands) \<le> max (int (length cands)) maxc"
    by (auto split: option.splits)
  from Cons.prems hit obtain unit where
    "rank_units e maxc hits (ru @ [unit]) ?cands = (ru', cands')"
    by (auto simp: Let_def)
  from Cons.IH [OF this] step show ?case by linarith
qed

lemma search_sentences_bound:
  "search_sentences e model_type topk maxc zs ps cands = Inr (ps', cands') \<Longrightarrow>
   int (length cands') \<le> max (int (length cands)) maxc"
proof (induction zs arbitrary: ps cands)
  case Nil
  then show ?case by simp
next
  case (Cons z zs)
  obtain sentence feat where z: "z = (sentence, feat)" by (cases z)
  from Cons.prems z obtain hits where
    h: "faiss_search (index_chosen e model_type) feat topk = Inr hits"
    by (auto split: sum.splits)
  obtain ru c1 where r: "rank_units e maxc hits [] cands = (ru, c1)"
    by (cases "rank_units e maxc hits [] cands")
  from Cons.prems z h r have
    "search_sentences e model_type topk maxc zs (ps @ [(sentence, take temp ru)]) c1 = Inr (ps', cands')"
    by simp
  from Cons.IH [OF this] rank_units_bound [OF r] show ?case by linarith
qed

lemma process_videos_length:
  "process_videos body vs acc = Inr rs \<Longrightarrow> length rs \<le> length acc + length vs"
proof (induction vs arbitrary: acc)
  case Nil
  then show ?case by simp
next
  case (Cons v vs)
  show ?case
  proof (cases "body v")
    case (Inl err)
    with Cons.prems show ?thesis by simp
  next
    case (Inr res)
    show ?thesis
    proof (cases res)
      case None
      with Inr Cons.prems have "process_videos body vs acc = Inr rs" by simp
      from Cons.IH [OF this] show ?thesis by simp
    next
      case (Some hit)
      with Inr Cons.prems have "process_videos body vs (acc @ [hit]) = Inr rs" by simp
      from Cons.IH [OF this] show ?thesis by simp
    qed
  qed
qed

lemma temporal_multi_no_truncation:
  assumes "max_candidate_videos \<le> k'" and "0 < k'"
  shows "temporal_multi e sentences 0 model_type topk max_candidate_videos w_min w_max =
         temporal_multi e sentences k' model_type topk max_candidate_videos w_min w_max"
proof (cases "encode_sentences e model_type 0 sentences")
  case (Inl err)
  then show ?thesis by (simp add: temporal_multi_def)
next
  case (Inr feats)
  show ?thesis
  proof (cases "search_sentences e model_type topk max_candidate_videos
                  (zip sentences (map snd feats)) [] []")
    case (Inl err)
    with Inr show ?thesis by (simp add: temporal_multi_def)
  next
    case s: (Inr found)
    obtain ps cands where found: "found = (ps, cands)" by (cases found)
    have cb: "int (length cands) \<le> k'"
      using search_sentences_bound [OF s [unfolded found]] assms by simp
    show ?thesis
    proof (cases "process_videos
        (process_video e model_type w_min w_max (length sentences) (map fst feats) ps) cands []")
      case (Inl err)
      with Inr s found show ?thesis by (simp add: temporal_multi_def)
    next
      case p: (Inr results)
      have "length results \<le> length cands" using process_videos_length [OF p] by simp
      with cb have "length (sort_key (\<lambda>r. - score r) results) \<le> nat k'" by simp
      then have "take (nat k') (sort_key (\<lambda>r. - score r) results) = sort_key (\<lambda>r. - score r) results"
        by (rule take_all)
      with Inr s found p assms(2) show ?thesis by (simp add: temporal_multi_def Let_def)
    qed
  qed
qed

lemma temporal_multi_per_sentence:
  assumes "temporal_multi e sentences k model_type topk max_candidate_videos w_min w_max =
             Inr (ps, cands, rs)"
  shows "length ps = length sentences"
proof -
  from assms obtain feats where f: "encode_sentences e model_type 0 sentences = Inr feats"
    and nc: "model_type \<noteq> ''clip2video''"
    by (auto simp: temporal_multi_def split: sum.splits if_splits)
  from assms f nc obtain cands0 where
    "search_sentences e model_type topk max_candidate_videos (zip sentences (map snd feats)) [] []
       = Inr (ps, cands0)"
    by (auto simp: temporal_multi_def Let_def split: sum.splits if_splits)
  from search_sentences_len [OF this] encode_sentences_len [OF f nc] show ?thesis by simp
qed

lemma temporal_multi_zero:
  assumes "temporal_multi e sentences 0 model_type topk max_candidate_videos w_min w_max =
             Inr (ps, cands, rs)"
  shows "\<exists>feats results.
           encode_sentences e model_type 0 sentences = Inr feats \<and>
           search_sentences e model_type topk max_candidate_videos
             (zip sentences (map snd feats)) [] [] = Inr (ps, cands) \<and>
           process_videos
             (process_video e model_type w_min w_max (length sentences) (map fst feats) ps)
             cands [] = Inr results \<and>
           rs = sort_key (\<lambda>r. - score r) results"
proof -
  from assms obtain feats where f: "encode_sentences e model_type 0 sentences = Inr feats"
    and nc: "model_type \<noteq> ''clip2video''"
    by (auto simp: temporal_multi_def split: sum.splits if_splits)
  from assms f nc obtain cands0 where
    s: "search_sentences e model_type topk max_candidate_videos (zip sentences (map snd feats)) [] []
       = Inr (ps, cands0)"
    by (auto simp: temporal_multi_def Let_def split: sum.splits if_splits)
  show ?thesis
  proof (cases "cands0 = []")
    case True
    with assms f nc s have "cands = []" "rs = []" by (auto simp: temporal_multi_def)
    with True f s show ?thesis by auto
  next
    case False
    with assms f nc s obtain results where
      "process_videos
         (process_video e model_type w_min w_max (length sentences) (map fst feats) ps)
         cands0 [] = Inr results"
      and "cands = cands0" and "rs = sort_key (\<lambda>r. - score r) results"
      by (auto simp: temporal_multi_def Let_def split: sum.splits)
    with f s show ?thesis by auto
  qed
qed

text \<open>
  C3, as stated, fails.  With \<open>k = 0\<close> and two sentences \<open>temporal_search\<close> skips
  the truncation (\<open>if k and k > 0\<close>) and returns the result of the video.  And
  \<open>text_search\<close> with \<open>k = 0\<close> returns no empty list: it encodes the query and
  calls the index search, which raises on \<open>k = 0\<close>.
\<close>

theorem k_zero_counterexample:
  "results_of (temporal_search beit3_engine ''a cat. a dog'' 0 ''beit3'' 200 30 1 None) =
     Some (PList [PDict
       [(''video_id'', PStr ''L01_V001''),
        (''frames'', PList [PInt 0, PInt 1]),
        (''images'', PList [PStr ''001.jpg'', PStr ''002.jpg'']),
        (''paths'', PList [PStr ''keyframe_btc/Keyframes_L01/keyframes/L01_V001/001.jpg'',
                          PStr ''keyframe_btc/Keyframes_L01/keyframes/L01_V001/002.jpg'']),
        (''score'', PNum 110)]]) \<and>
   text_search demo_engine ''a cat'' 0 ''clip'' = Inl AssertionError"
  by code_simp

text \<open>
  C3, amended: with \<open>k = 0\<close> no search operation returns early; each encodes the query
  and searches the index.  \<open>text_search\<close> returns no list at all: it raises the error
  of the encoder if the encoding fails, and otherwise the error of the index search,
  which is \<open>AssertionError\<close> for features of two dimensions and \<open>ValueError\<close> for
  features of one.  \<open>temporal_search\<close> with two or more sentences raises the error of
  the encoder if a sentence cannot be encoded and the error of the index search if a
  search fails.  When it returns, every sentence was encoded and searched, its result
  holds one shortlist per sentence, and no truncation is applied: the results are those
  of all the candidate videos, sorted by score, as for any positive \<open>k\<close> at or above
  \<open>max_candidate_videos\<close>.
\<close>

theorem k_zero_no_truncation:
  assumes "2 \<le> length (split_sentences (translator e text))"
    and "max_candidate_videos \<le> k'" and "0 < k'"
  shows "temporal_search e text 0 model_type topk max_candidate_videos w_min w_max =
           temporal_search e text k' model_type topk max_candidate_videos w_min w_max \<and>
         (encode_sentences e model_type 0 (split_sentences (translator e text)) = Inl err \<longrightarrow>
            temporal_search e text 0 model_type topk max_candidate_videos w_min w_max = Inl err) \<and>
         (encode_sentences e model_type 0 (split_sentences (translator e text)) = Inr feats \<and>
          model_type \<noteq> ''clip2video'' \<and>
          search_sentences e model_type topk max_candidate_videos
            (zip (split_sentences (translator e text)) (map snd feats)) [] [] = Inl err \<longrightarrow>
            temporal_search e text 0 model_type topk max_candidate_videos w_min w_max = Inl err) \<and>
         (temporal_search e text 0 model_type topk max_candidate_videos w_min w_max = Inr d \<longrightarrow>
            (\<exists>fs ps cands results.
               encode_sentences e model_type 0 (split_sentences (translator e text)) = Inr fs \<and>
               search_sentences e model_type topk max_candidate_videos
                 (zip (split_sentences (translator e text)) (map snd fs)) [] [] = Inr (ps, cands) \<and>
               length ps = length (split_sentences (translator e text)) \<and>
               process_videos
                 (process_video e model_type w_min w_max
                    (length (split_sentences (translator e text))) (map fst fs) ps)
                 cands [] = Inr results \<and>
               d = [(''sentences'', PList (map PStr (split_sentences (translator e text)))),
                    (''per_sentence'', PList (map sentence_dict ps)),
                    (''candidate_videos'', PList (map PStr cands)),
                    (''results'', PList (map hit_dict (sort_key (\<lambda>r. - score r) results)))])) \<and>
         isl (text_search e text' 0 model_type') \<and>
         (text_features e model_type' (translator e text') = Inl err' \<longrightarrow>
            text_search e text' 0 model_type' = Inl err') \<and>
         (text_features e model_type' (translator e text') = Inr (Mat rows) \<longrightarrow>
            text_search e text' 0 model_type' = Inl AssertionError) \<and>
         (text_features e model_type' (translator e text') = Inr (Vec1 v) \<longrightarrow>
            text_search e text' 0 model_type' = Inl shape_error)"
proof -
  let ?ss = "split_sentences (translator e text)"
  let ?run = "temporal_search e text 0 model_type topk max_candidate_videos w_min w_max"
  have n: "?ss \<noteq> []" "length ?ss \<noteq> 1" using assms(1) by auto
  have 1: "?run = temporal_search e text k' model_type topk max_candidate_videos w_min w_max"
    using n temporal_multi_no_truncation [OF assms(2,3)]
    by (simp add: temporal_search_def Let_def)
  have 2: "encode_sentences e model_type 0 ?ss = Inl err \<longrightarrow> ?run = Inl err"
    using n by (simp add: temporal_search_def temporal_multi_def Let_def)
  have 3: "encode_sentences e model_type 0 ?ss = Inr feats \<and> model_type \<noteq> ''clip2video'' \<and>
          search_sentences e model_type topk max_candidate_videos
            (zip ?ss (map snd feats)) [] [] = Inl err \<longrightarrow> ?run = Inl err"
    using n by (simp add: temporal_search_def temporal_multi_def Let_def)
  have 4: "?run = Inr d \<longrightarrow>
            (\<exists>fs ps cands results.
               encode_sentences e model_type 0 ?ss = Inr fs \<and>
               search_sentences e model_type topk max_candidate_videos
                 (zip ?ss (map snd fs)) [] [] = Inr (ps, cands) \<and>
               length ps = length ?ss \<and>
               process_videos
                 (process_video e model_type w_min w_max (length ?ss) (map fst fs) ps)
                 cands [] = Inr results \<and>
               d = [(''sentences'', PList (map PStr ?ss)),
                    (''per_sentence'', PList (map sentence_dict ps)),
                    (''candidate_videos'', PList (map PStr cands)),
                    (''results'', PList (map hit_dict (sort_key (\<lambda>r. - score r) results)))])"
  proof
    assume a: "?run = Inr d"
    from a n obtain ps cands rs where
      m: "temporal_multi e ?ss 0 model_type topk max_candidate_videos w_min w_max = Inr (ps, cands, rs)"
      and d: "d = [(''sentences'', PList (map PStr ?ss)),
                   (''per_sentence'', PList (map sentence_dict ps)),
                   (''candidate_videos'', PList (map PStr cands)),
                   (''results'', PList (map hit_dict rs))]"
      by (auto simp: temporal_search_def Let_def split: sum.splits)
    from temporal_multi_zero [OF m] temporal_multi_per_sentence [OF m] d
    show "\<exists>fs ps cands results.
               encode_sentences e model_type 0 ?ss = Inr fs \<and>
               search_sentences e model_type topk max_candidate_videos
                 (zip ?ss (map snd fs)) [] [] = Inr (ps, cands) \<and>
               length ps = length ?ss \<and>
               process_videos
                 (process_video e model_type w_min w_max (length ?ss) (map fst fs) ps)
                 cands [] = Inr results \<and>
               d = [(''sentences'', PList (map PStr ?ss)),
                    (''per_sentence'', PList (map sentence_dict ps)),
                    (''candidate_videos'', PList (map PStr cands)),
                    (''results'', PList (map hit_dict (sort_key (\<lambda>r. - score r) results)))]"
      by blast
  qed
  have 5: "isl (text_search e text' 0 model_type')"
    by (rule text_search_no_hits) simp
  have 6: "text_features e model_type' (translator e text') = Inl err' \<longrightarrow>
            text_search e text' 0 model_type' = Inl err'"
    by (simp add: text_search_def)
  have 7: "text_features e model_type' (translator e text') = Inr (Mat rows) \<longrightarrow>
            text_search e text' 0 model_type' = Inl AssertionError"
    by (simp add: text_search_def faiss_search_def)
  have 8: "text_features e model_type' (translator e text') = Inr (Vec1 v) \<longrightarrow>
            text_search e text' 0 model_type' = Inl shape_error"
    by (simp add: text_search_def faiss_search_def)
  from 1 2 3 4 5 6 7 8 show ?thesis by blast
qed

theorem k_zero_no_truncation_witness:
  "2 \<le> length (split_sentences (translator beit3_engine ''a cat. a dog'')) \<and>
   2 \<le> length (split_sentences (translator demo_engine ''a cat. a dog'')) \<and>
   (30::int) \<le> 30 \<and> (0::int) < 30 \<and>
   temporal_search beit3_engine ''a cat. a dog'' 0 ''beit3'' 200 30 1 None =
     temporal_search beit3_engine ''a cat. a dog'' 30 ''beit3'' 200 30 1 None \<and>
   (\<exists>d fs ps cands results.
      temporal_search beit3_engine ''a cat. a dog'' 0 ''beit3'' 200 30 1 None = Inr d \<and>
      encode_sentences beit3_engine ''beit3'' 0
        (split_sentences (translator beit3_engine ''a cat. a dog'')) = Inr fs \<and>
      search_sentences beit3_engine ''beit3'' 200 30
        (zip (split_sentences (translator beit3_engine ''a cat. a dog'')) (map snd fs)) [] [] =
        Inr (ps, cands) \<and>
      length ps = length (split_sentences (translator beit3_engine ''a cat. a dog'')) \<and>
      process_videos
        (process_video beit3_engine ''beit3'' 1 None
           (length (split_sentences (translator beit3_engine ''a cat. a dog''))) (map fst fs) ps)
        cands [] = Inr results \<and>
      d = [(''sentences'',
              PList (map PStr (split_sentences (translator beit3_engine ''a cat. a dog'')))),
           (''per_sentence'', PList (map sentence_dict ps)),
           (''candidate_videos'', PList (map PStr cands)),
           (''results'', PList (map hit_dict (sort_key (\<lambda>r. - score r) results)))]) \<and>
   text_features beit3_engine ''clip'' (translator beit3_engine ''a cat'') = Inr (Mat [[1, 0]]) \<and>
   text_search beit3_engine ''a cat'' 0 ''clip'' = Inl AssertionError \<and>
   isl (text_search beit3_engine ''a cat'' 0 ''clip'') \<and>
   encode_sentences beit3_engine ''blip'' 0
     (split_sentences (translator beit3_engine ''a cat. a dog'')) = Inl NotImplementedError \<and>
   temporal_search beit3_engine ''a cat. a dog'' 0 ''blip'' 200 30 1 None =
     Inl NotImplementedError \<and>
   text_features beit3_engine ''clip2video'' (translator beit3_engine ''a cat'') =
     Inl AttributeError \<and>
   text_search beit3_engine ''a cat'' 0 ''clip2video'' = Inl AttributeError \<and>
   encode_sentences demo_engine ''longclip'' 0
     (split_sentences (translator demo_engine ''a cat. a dog'')) =
     Inr [([0, 1], Vec1 [0, 1]), ([0, 1], Vec1 [0, 1])] \<and>
   search_sentences demo_engine ''longclip'' 200 30
     (zip (split_sentences (translator demo_engine ''a cat. a dog''))
        (map snd [([0, 1], Vec1 [0, 1]), ([0, 1], Vec1 [0, 1])])) [] [] = Inl shape_error \<and>
   temporal_search demo_engine ''a cat. a dog'' 0 ''longclip'' 200 30 1 None = Inl shape_error \<and>
   text_features demo_engine ''longclip'' (translator demo_engine ''a cat'') = Inr (Vec1 [0, 1]) \<and>
   text_search demo_engine ''a cat'' 0 ''longclip'' = Inl shape_error"
proof -
  let ?run = "temporal_search beit3_engine ''a cat. a dog'' 0 ''beit3'' 200 30 1 None"
  have a: "2 \<le> length (split_sentences (translator beit3_engine ''a cat. a dog''))"
    by code_simp
  have a': "2 \<le> length (split_sentences (translator demo_engine ''a cat. a dog''))"
    by code_simp
  have b: "(30::int) \<le> 30" and c: "(0::int) < 30" by simp_all
  have g1: "text_features beit3_engine ''clip'' (translator beit3_engine ''a cat'') = Inr (Mat [[1, 0]])"
    by code_simp
  have g2: "encode_sentences beit3_engine ''blip'' 0
     (split_sentences (translator beit3_engine ''a cat. a dog'')) = Inl NotImplementedError"
    by code_simp
  have g3: "text_features beit3_engine ''clip2video'' (translator beit3_engine ''a cat'') =
     Inl AttributeError"
    by code_simp
  have g4: "encode_sentences demo_engine ''longclip'' 0
     (split_sentences (translator demo_engine ''a cat. a dog'')) =
     Inr [([0, 1], Vec1 [0, 1]), ([0, 1], Vec1 [0, 1])]"
    by code_simp
  have g5: "search_sentences demo_engine ''longclip'' 200 30
     (zip (split_sentences (translator demo_engine ''a cat. a dog''))
        (map snd [([0, 1], Vec1 [0, 1]), ([0, 1], Vec1 [0, 1])])) [] [] = Inl shape_error"
    by code_simp
  have g6: "text_features demo_engine ''longclip'' (translator demo_engine ''a cat'') = Inr (Vec1 [0, 1])"
    by code_simp
  have g7: "''longclip'' \<noteq> ''clip2video''" by simp
  have "\<not> isl ?run" by code_simp
  then obtain d where d: "?run = Inr d" by (cases ?run) auto
  note t1 = k_zero_no_truncation [OF a b c, of "''beit3''" 200 1 None AssertionError "[]" d
             "''a cat''" "''clip''" AssertionError "[[1, 0]]" "[]"]
  note t2 = k_zero_no_truncation [OF a b c, of "''blip''" 200 1 None NotImplementedError "[]" "[]"
             "''a cat''" "''clip2video''" AttributeError "[]" "[]"]
  note t3 = k_zero_no_truncation [OF a' b c, of "''longclip''" 200 1 None shape_error
             "[([0, 1], Vec1 [0, 1]), ([0, 1], Vec1 [0, 1])]" "[]"
             "''a cat''" "''longclip''" shape_error "[]" "[0, 1]"]
  from t1 have e1: "?run = temporal_search beit3_engine ''a cat. a dog'' 30 ''beit3'' 200 30 1 None"
    by blast
  from t1 d have e2: "\<exists>d fs ps cands results.
      ?run = Inr d \<and>
      encode_sentences beit3_engine ''beit3'' 0
        (split_sentences (translator beit3_engine ''a cat. a dog'')) = Inr fs \<and>
      search_sentences beit3_engine ''beit3'' 200 30
        (zip (split_sentences (translator beit3_engine ''a cat. a dog'')) (map snd fs)) [] [] =
        Inr (ps, cands) \<and>
      length ps = length (split_sentences (translator beit3_engine ''a cat. a dog'')) \<and>
      process_videos
        (process_video beit3_engine ''beit3'' 1 None
           (length (split_sentences (translator beit3_engine ''a cat. a dog''))) (map fst fs) ps)
        cands [] = Inr results \<and>
      d = [(''sentences'',
              PList (map PStr (split_sentences (translator beit3_engine ''a cat. a dog'')))),
           (''per_sentence'', PList (map sentence_dict ps)),
           (''candidate_videos'', PList (map PStr cands)),
           (''results'', PList (map hit_dict (sort_key (\<lambda>r. - score r) results)))]"
    by blast
  from t1 g1 have e3: "text_search beit3_engine ''a cat'' 0 ''clip'' = Inl AssertionError"
    "isl (text_search beit3_engine ''a cat'' 0 ''clip'')"
    by blast+
  from t2 g2 have e4: "temporal_search beit3_engine ''a cat. a dog'' 0 ''blip'' 200 30 1 None =
     Inl NotImplementedError"
    by blast
  from t2 g3 have e5: "text_search beit3_engine ''a cat'' 0 ''clip2video'' = Inl AttributeError"
    by blast
  from t3 g4 g5 g7 have e6:
    "temporal_search demo_engine ''a cat. a dog'' 0 ''longclip'' 200 30 1 None = Inl shape_error"
    by blast
  from t3 g6 have e7: "text_search demo_engine ''a cat'' 0 ''longclip'' = Inl shape_error"
    by blast
  from a a' b c e1 e2 g1 e3 g2 e4 g3 e5 g4 g5 e6 g6 e7 show ?thesis by blast
qed

subsection \<open>The single-sentence branch\<close>

text \<open>
  C6: the dictionary returned for a query of one sentence has the keys \<open>sentences\<close>,
  \<open>candidates\<close> and \<open>results\<close>; it has no key \<open>candidate_videos\<close>, which the
  docstring, the other branch and the caller name.  \<open>TemporalService\<close> reads
  \<open>result["video_id"]\<close> and \<open>result_dict["candidate_videos"]\<close>, fails on the missing
  key and answers with its mock data.
\<close>

theorem single_sentence_keys:
  "keys_of (temporal_search demo_engine ''a cat'' 5 ''clip'' 200 30 1 None) =
     [''sentences'', ''candidates'', ''results''] \<and>
   results_of (temporal_search demo_engine ''a cat'' 5 ''clip'' 200 30 1 None) =
     Some (PList [PDict [(''unit_id'', PStr ''L01_V001''), (''frames'', PList [PNone]),
                         (''score'', PNum 1)]]) \<and>
   service_temporal_search (Inr demo_engine) ''a cat'' CLIP 5 200 30 1 None =
     mock_temporal_data ''a cat'' 5"
  by code_simp

subsection \<open>Fallbacks to synthesized results\<close>

lemma encode_sentences_dummy:
  "beit3_model e = None \<Longrightarrow>
   encode_sentences e ''beit3'' i ss =
     Inr (map (\<lambda>j. (l2_normalize e (randn e j),
                    if cuda e then Mat [randn e j] else Mat [l2_normalize e (randn e j)]))
            [i ..< i + length ss])"
proof (induction ss arbitrary: i)
  case Nil
  then show ?case by simp
next
  case (Cons s ss)
  have "i < i + length (s # ss)" by simp
  from upt_conv_Cons [OF this]
  have u: "[i ..< i + length (s # ss)] = i # [Suc i ..< Suc i + length ss]" by simp
  from Cons.IH [OF Cons.prems, of "Suc i"] Cons.prems show ?case
    unfolding u by (simp add: encode_sentence_def beit3_features_def)
qed

lemma encode_sentences_mock:
  "longclip_model e = None \<Longrightarrow>
   encode_sentences e ''longclip'' i ss =
     Inr (map (\<lambda>j. (l2_normalize e (randn e j),
                    if cuda e then Vec1 (randn e j) else Vec1 (l2_normalize e (randn e j))))
            [i ..< i + length ss])"
proof (induction ss arbitrary: i)
  case Nil
  then show ?case by simp
next
  case (Cons s ss)
  have "i < i + length (s # ss)" by simp
  from upt_conv_Cons [OF this]
  have u: "[i ..< i + length (s # ss)] = i # [Suc i ..< Suc i + length ss]" by simp
  from Cons.IH [OF Cons.prems, of "Suc i"] Cons.prems show ?case
    unfolding u by (simp add: encode_sentence_def longclip_encode_text_def Let_def)
qed

lemma temporal_search_mock_longclip:
  assumes "longclip_model e = None" and "split_sentences (translator e text) \<noteq> []"
  shows "temporal_search e text k ''longclip'' topk max_candidate_videos w_min w_max = Inl shape_error"
proof (cases "length (split_sentences (translator e text)) = 1")
  case True
  have "text_search e (hd (split_sentences (translator e text))) k ''longclip'' = Inl shape_error"
    using assms(1)
    by (simp add: text_search_def text_features_def longclip_encode_text_def faiss_search_def)
  with True assms(2) show ?thesis by (simp add: temporal_search_def Let_def)
next
  case False
  let ?ss = "split_sentences (translator e text)"
  obtain s rest where ss: "?ss = s # rest" using assms(2) by (cases ?ss) auto
  have "0 < 0 + length (s # rest)" by simp
  from upt_conv_Cons [OF this]
  have u: "[0 ..< 0 + length (s # rest)] = 0 # [Suc 0 ..< Suc (length rest)]" by simp
  have "temporal_multi e ?ss k ''longclip'' topk max_candidate_videos w_min w_max = Inl shape_error"
    using encode_sentences_mock [OF assms(1), of 0 ?ss]
    unfolding ss u
    by (simp add: temporal_multi_def faiss_search_def)
  with False assms(2) show ?thesis by (simp add: temporal_search_def Let_def)
qed

text \<open>
  C2, as stated, fails.  The small engine has no BEiT-3 model, and \<open>text_search\<close> and
  \<open>temporal_search\<close> for \<open>beit3\<close> return hits all the same: they are computed from
  random vectors.  And when the engine cannot be loaded,
  \<open>TemporalService.temporal_search\<close> returns the mock result for the video
  \<open>L21_V001\<close> instead of an error.
\<close>

theorem no_fake_results_counterexample:
  "beit3_model demo_engine = None \<and>
   text_search demo_engine ''a cat'' 2 ''beit3'' =
     Inr ([1, 4 / 5], [1, 2], [''keyframes/L01_V001/002.jpg'', ''keyframes/L01_V001/003.jpg'']) \<and>
   results_of (temporal_search demo_engine ''a cat. a dog'' 5 ''beit3'' 200 30 1 None) =
     Some (PList [PDict
       [(''video_id'', PStr ''L01_V001''),
        (''frames'', PList [PInt 1, PInt 2]),
        (''images'', PList [PStr ''002.jpg'', PStr ''003.jpg'']),
        (''paths'', PList [PStr ''keyframe_btc/Keyframes_L01/keyframes/L01_V001/002.jpg'',
                          PStr ''keyframe_btc/Keyframes_L01/keyframes/L01_V001/003.jpg'']),
        (''score'', PNum 100)]]) \<and>
   map tr_video_id
     (td_results (service_temporal_search (Inl (ExternalError ''no index file''))
        ''a cat. a dog'' CLIP 5 200 30 1 None)) = [''L21_V001''] \<and>
   map tr_frames
     (td_results (service_temporal_search (Inl (ExternalError ''no index file''))
        ''a cat. a dog'' CLIP 5 200 30 1 None)) = [[10, 25, 40]]"
  by code_simp

text \<open>
  C2, amended: the core of the source does synthesize.  With no BEiT-3 model loaded,
  \<open>text_search\<close> searches the BEiT-3 index with a random unit vector and
  \<open>temporal_search\<close> encodes sentence \<open>i\<close> as the \<open>i\<close>-th random draw; neither raises
  for the missing model.  The LongCLIP encoder never raises: with no model loaded, or
  when the model fails on the text, it returns random features of one dimension.  The
  index search rejects their shape, so \<open>text_search\<close> for \<open>longclip\<close> raises
  \<open>ValueError\<close> then, and so does \<open>temporal_search\<close> for \<open>longclip\<close> with no
  model loaded and a query that has a sentence.  \<open>text_search\<close> raises
  \<open>AttributeError\<close> for \<open>clip2video\<close>, and \<open>NotImplementedError\<close> for a model
  type outside \<open>clip\<close>, \<open>longclip\<close>, \<open>beit3\<close> and \<open>clip2video\<close>.
  \<open>TemporalService.temporal_search\<close> runs a model type other than BEiT-3 and LongCLIP
  as CLIP and surfaces no error: it returns the fixed mock data when the engine cannot
  be loaded, when the engine's \<open>temporal_search\<close> raises and when the result of that
  does not convert, and the converted result otherwise.
\<close>

theorem fallbacks_to_synthesized_results:
  "(beit3_model e = None \<longrightarrow>
      text_search e text k ''beit3'' =
        (case faiss_search (index_beit3 e) (Mat [randn e 0]) k of
           Inl err \<Rightarrow> Inl err
         | Inr hits \<Rightarrow> Inr (map fst hits, map snd hits, image_paths_of e (map snd hits))) \<and>
      encode_sentences e ''beit3'' 0 ss =
        Inr (map (\<lambda>j. (l2_normalize e (randn e j),
                       if cuda e then Mat [randn e j] else Mat [l2_normalize e (randn e j)]))
               [0 ..< length ss])) \<and>
   (longclip_model e = None \<or> (\<exists>encode err. longclip_model e = Some encode \<and> encode s = Inl err) \<longrightarrow>
      longclip_encode_text e n s = Vec1 (randn e n)) \<and>
   (longclip_model e = None \<or>
    (\<exists>encode err. longclip_model e = Some encode \<and> encode (translator e text) = Inl err) \<longrightarrow>
      text_search e text k ''longclip'' = Inl shape_error) \<and>
   (longclip_model e = None \<and> split_sentences (translator e text) \<noteq> [] \<longrightarrow>
      temporal_search e text k ''longclip'' topk max_candidate_videos w_min w_max =
        Inl shape_error) \<and>
   text_search e text k ''clip2video'' = Inl AttributeError \<and>
   (model_type \<notin> {''clip'', ''longclip'', ''beit3'', ''clip2video''} \<longrightarrow>
      text_search e text k model_type = Inl NotImplementedError) \<and>
   service_temporal_search (Inl err) query mt limit topk max_candidate_videos w_min w_max =
     mock_temporal_data query limit \<and>
   (temporal_search e query limit
        (if mt = BEIT3 then ''beit3'' else if mt = LONGCLIP then ''longclip'' else ''clip'')
        topk max_candidate_videos w_min w_max = Inl err \<longrightarrow>
      service_temporal_search (Inr e) query mt limit topk max_candidate_videos w_min w_max =
        mock_temporal_data query limit) \<and>
   (temporal_search e query limit
        (if mt = BEIT3 then ''beit3'' else if mt = LONGCLIP then ''longclip'' else ''clip'')
        topk max_candidate_videos w_min w_max = Inr d \<and>
    to_temporal_data d = Inl err \<longrightarrow>
      service_temporal_search (Inr e) query mt limit topk max_candidate_videos w_min w_max =
        mock_temporal_data query limit) \<and>
   (temporal_search e query limit
        (if mt = BEIT3 then ''beit3'' else if mt = LONGCLIP then ''longclip'' else ''clip'')
        topk max_candidate_videos w_min w_max = Inr d \<and>
    to_temporal_data d = Inr data \<longrightarrow>
      service_temporal_search (Inr e) query mt limit topk max_candidate_videos w_min w_max = data)"
proof -
  have 1: "beit3_model e = None \<longrightarrow>
      text_search e text k ''beit3'' =
        (case faiss_search (index_beit3 e) (Mat [randn e 0]) k of
           Inl err \<Rightarrow> Inl err
         | Inr hits \<Rightarrow> Inr (map fst hits, map snd hits, image_paths_of e (map snd hits))) \<and>
      encode_sentences e ''beit3'' 0 ss =
        Inr (map (\<lambda>j. (l2_normalize e (randn e j),
                       if cuda e then Mat [randn e j] else Mat [l2_normalize e (randn e j)]))
               [0 ..< length ss])"
    using encode_sentences_dummy [of e 0 ss]
    by (simp add: text_search_def text_features_def beit3_features_def index_chosen_def)
  have 2: "longclip_model e = None \<or> (\<exists>encode err. longclip_model e = Some encode \<and> encode s = Inl err) \<longrightarrow>
      longclip_encode_text e n s = Vec1 (randn e n)"
    by (auto simp: longclip_encode_text_def)
  have 3: "longclip_model e = None \<or>
    (\<exists>encode err. longclip_model e = Some encode \<and> encode (translator e text) = Inl err) \<longrightarrow>
      text_search e text k ''longclip'' = Inl shape_error"
    by (auto simp: text_search_def text_features_def longclip_encode_text_def faiss_search_def)
  have 4: "longclip_model e = None \<and> split_sentences (translator e text) \<noteq> [] \<longrightarrow>
      temporal_search e text k ''longclip'' topk max_candidate_videos w_min w_max =
        Inl shape_error"
    using temporal_search_mock_longclip [of e "text" k topk max_candidate_videos w_min w_max]
    by simp
  have 5: "text_search e text k ''clip2video'' = Inl AttributeError"
    by (simp add: text_search_def text_features_def)
  have 6: "model_type \<notin> {''clip'', ''longclip'', ''beit3'', ''clip2video''} \<longrightarrow>
      text_search e text k model_type = Inl NotImplementedError"
    by (simp add: text_search_def text_features_def)
  have 7: "service_temporal_search (Inl err) query mt limit topk max_candidate_videos w_min w_max =
     mock_temporal_data query limit"
    by (simp add: service_temporal_search_def)
  have 8: "temporal_search e query limit
        (if mt = BEIT3 then ''beit3'' else if mt = LONGCLIP then ''longclip'' else ''clip'')
        topk max_candidate_videos w_min w_max = Inl err \<longrightarrow>
      service_temporal_search (Inr e) query mt limit topk max_candidate_videos w_min w_max =
        mock_temporal_data query limit"
    by (cases mt) (simp_all add: service_temporal_search_def)
  have 9: "temporal_search e query limit
        (if mt = BEIT3 then ''beit3'' else if mt = LONGCLIP then ''longclip'' else ''clip'')
        topk max_candidate_videos w_min w_max = Inr d \<and>
    to_temporal_data d = Inl err \<longrightarrow>
      service_temporal_search (Inr e) query mt limit topk max_candidate_videos w_min w_max =
        mock_temporal_data query limit"
    by (cases mt) (simp_all add: service_temporal_search_def)
  have 10: "temporal_search e query limit
        (if mt = BEIT3 then ''beit3'' else if mt = LONGCLIP then ''longclip'' else ''clip'')
        topk max_candidate_videos w_min w_max = Inr d \<and>
    to_temporal_data d = Inr data \<longrightarrow>
      service_temporal_search (Inr e) query mt limit topk max_candidate_videos w_min w_max = data"
    by (cases mt) (simp_all add: service_temporal_search_def)
  from 1 2 3 4 5 6 7 8 9 10 show ?thesis by blast
qed

theorem fallbacks_to_synthesized_results_witness:
  "beit3_model demo_engine = None \<and> longclip_model demo_engine = None \<and>
   text_search demo_engine ''a cat'' 2 ''beit3'' =
     Inr ([1, 4 / 5], [1, 2], [''keyframes/L01_V001/002.jpg'', ''keyframes/L01_V001/003.jpg'']) \<and>
   encode_sentences demo_engine ''beit3'' 0 [''a cat'', ''a dog''] =
     Inr [([0, 1], Mat [[0, 1]]), ([0, 1], Mat [[0, 1]])] \<and>
   longclip_encode_text demo_engine 0 ''a cat'' = Vec1 [0, 1] \<and>
   text_search demo_engine ''a cat'' 2 ''longclip'' = Inl shape_error \<and>
   split_sentences (translator demo_engine ''a cat'') \<noteq> [] \<and>
   temporal_search demo_engine ''a cat'' 2 ''longclip'' 200 30 1 None = Inl shape_error \<and>
   text_search demo_engine ''a cat'' 2 ''clip2video'' = Inl AttributeError \<and>
   text_search demo_engine ''a cat'' 2 ''blip'' = Inl NotImplementedError \<and>
   service_temporal_search (Inl (ExternalError ''no index file'')) [] CLIP2VIDEO 5 200 30 1 None =
     mock_temporal_data [] 5 \<and>
   temporal_search demo_engine [] 5 ''clip'' 200 30 1 None = Inl AssertionError \<and>
   service_temporal_search (Inr demo_engine) [] CLIP2VIDEO 5 200 30 1 None =
     mock_temporal_data [] 5 \<and>
   (\<exists>encode err. longclip_model failing_longclip_engine = Some encode \<and>
      encode (translator failing_longclip_engine ''a cat'') = Inl err) \<and>
   longclip_encode_text failing_longclip_engine 0 ''a cat'' = Vec1 [0, 1] \<and>
   text_search failing_longclip_engine ''a cat'' 2 ''longclip'' = Inl shape_error \<and>
   temporal_search beit3_engine ''a cat'' 5 ''beit3'' 200 30 1 None =
     Inr [(''sentences'', PList [PStr ''a cat'']),
          (''candidates'', PList [PStr ''L01_V001'']),
          (''results'',
           PList [PDict [(''unit_id'', PStr ''L01_V001''), (''frames'', PList [PNone]),
                         (''score'', PNum 1)]])] \<and>
   to_temporal_data
     [(''sentences'', PList [PStr ''a cat'']),
      (''candidates'', PList [PStr ''L01_V001'']),
      (''results'',
       PList [PDict [(''unit_id'', PStr ''L01_V001''), (''frames'', PList [PNone]),
                     (''score'', PNum 1)]])] = Inl (KeyError ''video_id'') \<and>
   service_temporal_search (Inr beit3_engine) ''a cat'' BEIT3 5 200 30 1 None =
     mock_temporal_data ''a cat'' 5 \<and>
   (\<exists>d. temporal_search beit3_engine ''a cat. a dog'' 5 ''beit3'' 200 30 1 None = Inr d \<and>
        to_temporal_data d =
          Inr (service_temporal_search (Inr beit3_engine) ''a cat. a dog'' BEIT3 5 200 30 1 None)) \<and>
   map tr_video_id
     (td_results (service_temporal_search (Inr beit3_engine) ''a cat. a dog'' BEIT3 5 200 30 1 None))
     = [''L01_V001''] \<and>
   map tr_frames
     (td_results (service_temporal_search (Inr beit3_engine) ''a cat. a dog'' BEIT3 5 200 30 1 None))
     = [[0, 1]]"
proof -
  let ?one = "[(''sentences'', PList [PStr ''a cat'']),
          (''candidates'', PList [PStr ''L01_V001'']),
          (''results'',
           PList [PDict [(''unit_id'', PStr ''L01_V001''), (''frames'', PList [PNone]),
                         (''score'', PNum 1)]])]"
  let ?two = "temporal_search beit3_engine ''a cat. a dog'' 5 ''beit3'' 200 30 1 None"
  have a: "beit3_model demo_engine = None" "longclip_model demo_engine = None"
    by (simp_all add: demo_engine_def)
  have b: "''blip'' \<notin> {''clip'', ''longclip'', ''beit3'', ''clip2video''}" by simp
  have c: "split_sentences (translator demo_engine ''a cat'') \<noteq> []" by code_simp
  have d: "(case faiss_search (index_beit3 demo_engine) (Mat [randn demo_engine 0]) 2 of
           Inl err \<Rightarrow> Inl err
         | Inr hits \<Rightarrow> Inr (map fst hits, map snd hits, image_paths_of demo_engine (map snd hits)))
         = Inr ([1, 4 / 5], [1, 2], [''keyframes/L01_V001/002.jpg'', ''keyframes/L01_V001/003.jpg''])"
    by code_simp
  have f: "map (\<lambda>j. (l2_normalize demo_engine (randn demo_engine j),
                     if cuda demo_engine then Mat [randn demo_engine j]
                     else Mat [l2_normalize demo_engine (randn demo_engine j)]))
             [0 ..< length [''a cat'', ''a dog'']] = [([0, 1], Mat [[0, 1]]), ([0, 1], Mat [[0, 1]])]"
    by code_simp
  have g: "randn demo_engine 0 = [0, 1]" by (simp add: demo_engine_def)
  have g': "randn failing_longclip_engine 0 = [0, 1]"
    by (simp add: failing_longclip_engine_def demo_engine_def)
  have h: "temporal_search demo_engine [] 5
             (if CLIP2VIDEO = BEIT3 then ''beit3'' else if CLIP2VIDEO = LONGCLIP then ''longclip''
              else ''clip'') 200 30 1 None = Inl AssertionError"
    by code_simp
  have h': "temporal_search demo_engine [] 5 ''clip'' 200 30 1 None = Inl AssertionError"
    using h by simp
  have l: "\<exists>encode err. longclip_model failing_longclip_engine = Some encode \<and>
      encode (translator failing_longclip_engine ''a cat'') = Inl err"
    by (simp add: failing_longclip_engine_def)
  have l': "\<exists>encode err. longclip_model failing_longclip_engine = Some encode \<and>
      encode ''a cat'' = Inl err"
    by (simp add: failing_longclip_engine_def)
  have m: "temporal_search beit3_engine ''a cat'' 5
             (if BEIT3 = BEIT3 then ''beit3'' else if BEIT3 = LONGCLIP then ''longclip''
              else ''clip'') 200 30 1 None = Inr ?one"
    by code_simp
  have m': "temporal_search beit3_engine ''a cat'' 5 ''beit3'' 200 30 1 None = Inr ?one"
    using m by simp
  have n: "to_temporal_data ?one = Inl (KeyError ''video_id'')" by code_simp
  have "(case ?two of
           Inl _ \<Rightarrow> False
         | Inr d \<Rightarrow>
             (case to_temporal_data d of
                Inl _ \<Rightarrow> False
              | Inr data \<Rightarrow>
                  map tr_video_id (td_results data) = [''L01_V001''] \<and>
                  map tr_frames (td_results data) = [[0, 1]]))"
    by code_simp
  then obtain d2 data2 where o: "?two = Inr d2" "to_temporal_data d2 = Inr data2"
    "map tr_video_id (td_results data2) = [''L01_V001'']"
    "map tr_frames (td_results data2) = [[0, 1]]"
    by (auto split: sum.splits)
  note t1 = fallbacks_to_synthesized_results
             [of demo_engine "''a cat''" 2 "[''a cat'', ''a dog'']" "''a cat''" 0 200 30 1 None
                "''blip''" "ExternalError ''no index file''" "[]" CLIP2VIDEO 5 "[]"
                "mock_temporal_data [] 5"]
  note t2 = fallbacks_to_synthesized_results
             [of failing_longclip_engine "''a cat''" 2 "[]" "''a cat''" 0 200 30 1 None
                "''blip''" AssertionError "[]" CLIP2VIDEO 5 "[]" "mock_temporal_data [] 5"]
  note t3 = fallbacks_to_synthesized_results
             [of beit3_engine "''a cat''" 2 "[]" "''a cat''" 0 200 30 1 None
                "''blip''" "KeyError ''video_id''" "''a cat''" BEIT3 5 ?one
                "mock_temporal_data [] 5"]
  note t4 = fallbacks_to_synthesized_results
             [of beit3_engine "''a cat''" 2 "[]" "''a cat''" 0 200 30 1 None
                "''blip''" AssertionError "''a cat. a dog''" BEIT3 5 d2 data2]
  note t5 = fallbacks_to_synthesized_results
             [of demo_engine "''a cat''" 2 "[]" "''a cat''" 0 200 30 1 None
                "''blip''" AssertionError "[]" CLIP2VIDEO 5 "[]" "mock_temporal_data [] 5"]
  from t1 a d have 1: "text_search demo_engine ''a cat'' 2 ''beit3'' =
     Inr ([1, 4 / 5], [1, 2], [''keyframes/L01_V001/002.jpg'', ''keyframes/L01_V001/003.jpg''])"
    by simp
  from t1 a f have 2: "encode_sentences demo_engine ''beit3'' 0 [''a cat'', ''a dog''] =
     Inr [([0, 1], Mat [[0, 1]]), ([0, 1], Mat [[0, 1]])]"
    by simp
  from t1 a g have 3: "longclip_encode_text demo_engine 0 ''a cat'' = Vec1 [0, 1]" by simp
  from t1 a c have 4: "text_search demo_engine ''a cat'' 2 ''longclip'' = Inl shape_error"
    "temporal_search demo_engine ''a cat'' 2 ''longclip'' 200 30 1 None = Inl shape_error"
    by blast+
  from t1 b have 5: "text_search demo_engine ''a cat'' 2 ''clip2video'' = Inl AttributeError"
    "text_search demo_engine ''a cat'' 2 ''blip'' = Inl NotImplementedError"
    by blast+
  from t1 have 6: "service_temporal_search (Inl (ExternalError ''no index file'')) [] CLIP2VIDEO
      5 200 30 1 None = mock_temporal_data [] 5"
    by blast
  from t5 h have 8: "service_temporal_search (Inr demo_engine) [] CLIP2VIDEO 5 200 30 1 None =
     mock_temporal_data [] 5"
    by blast
  from t2 l' g' have 9: "longclip_encode_text failing_longclip_engine 0 ''a cat'' = Vec1 [0, 1]"
    by simp
  from t2 l have 10: "text_search failing_longclip_engine ''a cat'' 2 ''longclip'' = Inl shape_error"
    by blast
  from t3 m n have 11: "service_temporal_search (Inr beit3_engine) ''a cat'' BEIT3 5 200 30 1 None =
     mock_temporal_data ''a cat'' 5"
    by blast
  from o(1) have o': "temporal_search beit3_engine ''a cat. a dog'' 5
             (if BEIT3 = BEIT3 then ''beit3'' else if BEIT3 = LONGCLIP then ''longclip''
              else ''clip'') 200 30 1 None = Inr d2"
    by simp
  from t4 o' o(2) have 12:
    "service_temporal_search (Inr beit3_engine) ''a cat. a dog'' BEIT3 5 200 30 1 None = data2"
    by blast
  from o 12 have 13: "\<exists>d. ?two = Inr d \<and>
        to_temporal_data d =
          Inr (service_temporal_search (Inr beit3_engine) ''a cat. a dog'' BEIT3 5 200 30 1 None)"
    by simp
  from o 12 have 14: "map tr_video_id
     (td_results (service_temporal_search (Inr beit3_engine) ''a cat. a dog'' BEIT3 5 200 30 1 None))
     = [''L01_V001'']"
    "map tr_frames
     (td_results (service_temporal_search (Inr beit3_engine) ''a cat. a dog'' BEIT3 5 200 30 1 None))
     = [[0, 1]]"
    by simp_all
  from a 1 2 3 4 c 5 6 h' 8 l 9 10 m' n 11 13 14 show ?thesis by blast
qed

subsection \<open>Truncation before tokenization\<close>

lemma split_parts_le: "(m::nat) * 12 div 5 + m * 8 div 5 \<le> m * 4"
  by arith

lemma last_part_pos: "0 < (m::nat) \<Longrightarrow> m * 8 div 5 \<noteq> 0"
  by arith

text \<open>
  C9, as stated, fails in the order of preference: the text below has three sentences,
  the first is \<open>a.\<close> and fits the budget alone, yet the result is the first sentence
  joined to the last.
\<close>

theorem truncate_text_order_counterexample:
  "length long_text = 405 \<and>
   hd (sentence_scan long_text [] []) = ''a.'' \<and>
   last (sentence_scan long_text [] []) = ''c.'' \<and>
   truncate_text_for_clip long_text 77 = ''a. c.''"
  by code_simp

text \<open>
  C9, amended: a text of more than \<open>4 * max_tokens\<close> characters is cut into sentences
  after each of \<open>. ! ? : ;\<close>.  If there are two or more sentences and the first joined
  by a space to the last fits the budget, that is kept; otherwise, with two or more
  sentences, the first alone if it fits; otherwise the leading \<open>0.6 * 4 * max_tokens\<close>
  characters, an ellipsis and the trailing \<open>0.4 * 4 * max_tokens\<close> characters.  The
  result has at most \<open>4 * max_tokens + 3\<close> characters.  A text on which the tokenizer
  fails is cut to its first 50 characters and encoded once more.
\<close>

theorem truncate_text_cases:
  assumes "0 < max_tokens"
  shows "truncate_text_for_clip text max_tokens =
           (let ss = sentence_scan text [] []
            in if length text \<le> 4 * max_tokens then text
               else if 1 < length ss \<and> length (hd ss) + 1 + length (last ss) \<le> 4 * max_tokens
               then hd ss @ '' '' @ last ss
               else if 1 < length ss \<and> length (hd ss) \<le> 4 * max_tokens then hd ss
               else take (12 * max_tokens div 5) text @ ''...''
                    @ drop (length text - 8 * max_tokens div 5) text) \<and>
         length (truncate_text_for_clip text max_tokens) \<le> 4 * max_tokens + 3 \<and>
         (clip_encode_text e text = Inl err \<longrightarrow>
            clip_features_with_retry e text =
              (case clip_encode_text e (take 50 text) of
                 Inl err' \<Rightarrow> Inl err'
               | Inr feats \<Rightarrow> Inr (l2_normalize e feats)))"
proof -
  let ?b = "4 * max_tokens"
  let ?ss = "sentence_scan text [] []"
  let ?cut = "take (12 * max_tokens div 5) text @ ''...'' @ drop (length text - 8 * max_tokens div 5) text"
  have parts: "max_tokens * 12 div 5 + max_tokens * 8 div 5 \<le> max_tokens * 4"
    by (rule split_parts_le)
  have lp: "max_tokens * 8 div 5 \<noteq> 0" using assms by (rule last_part_pos)
  have eq: "truncate_text_for_clip text max_tokens =
           (if length text \<le> ?b then text
            else if 1 < length ?ss \<and> length (hd ?ss) + 1 + length (last ?ss) \<le> ?b
            then hd ?ss @ '' '' @ last ?ss
            else if 1 < length ?ss \<and> length (hd ?ss) \<le> ?b then hd ?ss
            else ?cut)"
  proof (cases "length text \<le> max_tokens * 4")
    case True
    then show ?thesis by (simp add: truncate_text_for_clip_def mult.commute)
  next
    case False
    then have "length text > max_tokens * 12 div 5 + max_tokens * 8 div 5"
      using parts by linarith
    with False lp show ?thesis
      by (simp add: truncate_text_for_clip_def Let_def mult.commute)
  qed
  have cut_len: "length ?cut \<le> ?b + 3"
    using parts by (simp add: mult.commute)
  have len: "length (truncate_text_for_clip text max_tokens) \<le> ?b + 3"
    unfolding eq using cut_len by (simp del: length_append length_take length_drop)
       (auto simp del: length_take length_drop)
  have retry: "clip_encode_text e text = Inl err \<longrightarrow>
            clip_features_with_retry e text =
              (case clip_encode_text e (take 50 text) of
                 Inl err' \<Rightarrow> Inl err'
               | Inr feats \<Rightarrow> Inr (l2_normalize e feats))"
    by (simp add: clip_features_with_retry_def)
  from eq len retry show ?thesis by (simp only: Let_def)
qed

theorem truncate_text_cases_witness:
  "(0::nat) < 77 \<and>
   truncate_text_for_clip (replicate 400 CHR ''b'' @ ''. cd.'') 77 =
     replicate 184 CHR ''b'' @ ''...'' @ replicate 118 CHR ''b'' @ ''. cd.'' \<and>
   length (truncate_text_for_clip (replicate 400 CHR ''b'' @ ''. cd.'') 77) \<le> 4 * 77 + 3 \<and>
   clip_encode_text short_engine (replicate 60 CHR ''b'') = Inl (RuntimeError ''context length'') \<and>
   clip_features_with_retry short_engine (replicate 60 CHR ''b'') = Inr [1, 0]"
proof -
  have p: "(0::nat) < 77" by simp
  have a: "truncate_text_for_clip (replicate 400 CHR ''b'' @ ''. cd.'') 77 =
     replicate 184 CHR ''b'' @ ''...'' @ replicate 118 CHR ''b'' @ ''. cd.''"
    by code_simp
  have b: "clip_encode_text short_engine (replicate 60 CHR ''b'') = Inl (RuntimeError ''context length'')"
    by code_simp
  have c: "(case clip_encode_text short_engine (take 50 (replicate 60 CHR ''b'')) of
                 Inl err' \<Rightarrow> Inl err'
               | Inr feats \<Rightarrow> Inr (l2_normalize short_engine feats)) = Inr [1, 0]"
    by code_simp
  have "length (truncate_text_for_clip (replicate 400 CHR ''b'' @ ''. cd.'') 77) \<le> 4 * 77 + 3"
    using truncate_text_cases [OF p, of "replicate 400 CHR ''b'' @ ''. cd.''"] by blast
  moreover have "clip_features_with_retry short_engine (replicate 60 CHR ''b'') = Inr [1, 0]"
    using truncate_text_cases [OF p, of "replicate 60 CHR ''b''" short_engine
            "RuntimeError ''context length''"] b c
    by simp
  ultimately show ?thesis using p a b by blast
qed

end
